theory Spec2Isabelle
  imports Complex_Main "HOL-Library.Sublist"
begin

section \<open>Python values and the built-ins the three scripts use\<close>

text \<open>
  The scripts handle values decoded from JSON (\<^verbatim>\<open>response.json()\<close>, the rows of the
  store). A decoded value is \<^verbatim>\<open>None\<close>, a bool, a number, a \<^verbatim>\<open>str\<close>, a list or a dict with
  string keys. A dict is an association list with distinct keys, in insertion order;
  a number is carried by its mathematical value.

  A \<^verbatim>\<open>str\<close> is a \<open>string\<close>: the characters are the code points below 256, and the
  string built-ins below are Python's on those code points.
\<close>

datatype pyval =
    PNone
  | PBool bool
  | PNum real
  | PStr string
  | PList "pyval list"
  | PDict "(string \<times> pyval) list"

text \<open>
  The exceptions that reach a caller in the modelled code. \<open>StoreException\<close> stands for
  whatever the store client raises, with the text that \<^verbatim>\<open>str(e)\<close> gives; \<open>RetryError\<close>
  is tenacity's, wrapping the last attempt's exception.
\<close>

datatype exn =
    AttributeError
  | TypeError
  | KeyError string
  | StoreException string
  | RetryError exn

type_synonym 'a result = "exn + 'a"

text \<open>Sequencing of calls that may raise: the first exception ends the computation.\<close>

definition bind_result :: "'a result \<Rightarrow> ('a \<Rightarrow> 'b result) \<Rightarrow> 'b result" where
  "bind_result r f = (case r of Inl e \<Rightarrow> Inl e | Inr v \<Rightarrow> f v)"

text \<open>\<^verbatim>\<open>bool(v)\<close>, as an \<^verbatim>\<open>if v:\<close> or \<^verbatim>\<open>not v\<close> computes it.\<close>

fun truthy :: "pyval \<Rightarrow> bool" where
  "truthy PNone = False"
| "truthy (PBool b) = b"
| "truthy (PNum n) = (n \<noteq> 0)"
| "truthy (PStr s) = (s \<noteq> [])"
| "truthy (PList xs) = (xs \<noteq> [])"
| "truthy (PDict kvs) = (kvs \<noteq> [])"

text \<open>
  \<^verbatim>\<open>v.get(key, default)\<close>: only a dict has the method; on any other decoded value the
  attribute lookup raises \<^verbatim>\<open>AttributeError\<close>. \<^verbatim>\<open>v.get(key)\<close> is \<open>py_get v key PNone\<close>.
\<close>

fun py_get :: "pyval \<Rightarrow> string \<Rightarrow> pyval \<Rightarrow> pyval result" where
  "py_get (PDict kvs) key dflt = Inr (case map_of kvs key of None \<Rightarrow> dflt | Some v \<Rightarrow> v)"
| "py_get _ key dflt = Inl AttributeError"

text \<open>
  \<^verbatim>\<open>v[key]\<close> with a string key: a dict looks the key up and raises \<^verbatim>\<open>KeyError\<close> when it
  is absent; a list or a string refuses a string index and every other decoded value is
  not subscriptable, both with \<^verbatim>\<open>TypeError\<close>.
\<close>

fun py_getitem :: "pyval \<Rightarrow> string \<Rightarrow> pyval result" where
  "py_getitem (PDict kvs) key = (case map_of kvs key of None \<Rightarrow> Inl (KeyError key) | Some v \<Rightarrow> Inr v)"
| "py_getitem _ key = Inl TypeError"

text \<open>
  The elements a \<^verbatim>\<open>for\<close> loop visits: those of a list, the keys of a dict, the
  one-character strings of a string; anything else is not iterable.
\<close>

fun py_iter :: "pyval \<Rightarrow> pyval list result" where
  "py_iter (PList xs) = Inr xs"
| "py_iter (PDict kvs) = Inr (map (\<lambda>kv. PStr (fst kv)) kvs)"
| "py_iter (PStr s) = Inr (map (\<lambda>c. PStr [c]) s)"
| "py_iter _ = Inl TypeError"

text \<open>
  \<^verbatim>\<open>str(v)\<close>, as an f-string inserts a value. A \<^verbatim>\<open>str\<close> is inserted as it is, \<^verbatim>\<open>None\<close> and
  the bools by their names. How the interpreter prints a number, a list or a dict is not
  modelled: that text is whatever the parameter \<open>rnd\<close> gives.
\<close>

fun py_str :: "(pyval \<Rightarrow> string) \<Rightarrow> pyval \<Rightarrow> string" where
  "py_str rnd (PStr s) = s"
| "py_str rnd PNone = ''None''"
| "py_str rnd (PBool b) = (if b then ''True'' else ''False'')"
| "py_str rnd v = rnd v"

subsection \<open>Strings\<close>

text \<open>
  \<^verbatim>\<open>str.lower\<close> on the code points below 256: the letters A to Z and the accented
  capitals U+00C0 to U+00DE (the multiplication sign U+00D7 apart) move up by 32,
  everything else stays.
\<close>

definition lower_char :: "char \<Rightarrow> char" where
  "lower_char c =
     (let n = (of_char c :: nat) in
      if (65 \<le> n \<and> n \<le> 90) \<or> (192 \<le> n \<and> n \<le> 222 \<and> n \<noteq> 215)
      then char_of (n + 32) else c)"

definition lower :: "string \<Rightarrow> string" where
  "lower s = map lower_char s"

text \<open>\<^verbatim>\<open>v.lower()\<close> on a decoded value: only a \<^verbatim>\<open>str\<close> has the method.\<close>

fun py_lower :: "pyval \<Rightarrow> string result" where
  "py_lower (PStr s) = Inr (lower s)"
| "py_lower _ = Inl AttributeError"

text \<open>\<^verbatim>\<open>sub in s\<close> on strings: \<open>sub\<close> occurs in \<open>s\<close> at some position.\<close>

fun starts_with :: "string \<Rightarrow> string \<Rightarrow> bool" where
  "starts_with s [] = True"
| "starts_with [] (c # sub) = False"
| "starts_with (d # s) (c # sub) = (d = c \<and> starts_with s sub)"

fun str_contains :: "string \<Rightarrow> string \<Rightarrow> bool" where
  "str_contains [] sub = (sub = [])"
| "str_contains (d # s) sub = (starts_with (d # s) sub \<or> str_contains s sub)"

text \<open>
  \<^verbatim>\<open>s.count(sub)\<close>: the number of non-overlapping occurrences, found from the left; after
  a match the scan resumes behind it. For the empty \<open>sub\<close> Python returns \<open>len(s) + 1\<close>.
\<close>

function str_count :: "string \<Rightarrow> string \<Rightarrow> nat" where
  "str_count s sub =
     (if sub = [] then length s + 1
      else if s = [] then 0
      else if starts_with s sub then 1 + str_count (drop (length sub) s) sub
      else str_count (tl s) sub)"
  by pat_completeness auto
termination
  by (relation "measure (\<lambda>(s, sub). length s)") auto

declare str_count.simps [simp del]

section \<open>News ingestion: the relevance filter\<close>

text \<open>
  \<^verbatim>\<open>is_relevant_article(article, keyword)\<close>. The three fields are read and lowercased
  first, in the order title, description, content, each with the default \<^verbatim>\<open>''\<close> for an
  absent key; a field that is present and not a \<^verbatim>\<open>str\<close> (a JSON null, say) makes
  \<^verbatim>\<open>.lower()\<close> raise there. Only then is the keyword looked for.
\<close>

definition is_relevant_article :: "pyval \<Rightarrow> string \<Rightarrow> bool result" where
  "is_relevant_article article keyword =
     bind_result (bind_result (py_get article ''title'' (PStr '''')) py_lower) (\<lambda>title.
     bind_result (bind_result (py_get article ''description'' (PStr '''')) py_lower) (\<lambda>description.
     bind_result (bind_result (py_get article ''content'' (PStr '''')) py_lower) (\<lambda>content.
       let keyword = lower keyword in
       if str_contains title keyword then Inr True
       else
         let keyword_count = str_count description keyword + str_count content keyword
         in Inr (keyword_count \<ge> 2))))"

section \<open>News ingestion: fetching the latest article\<close>

text \<open>
  What \<^verbatim>\<open>requests.get\<close> does is the environment's choice: it raises a
  \<^verbatim>\<open>RequestException\<close> (no connection, a timeout), or it returns a response. Of a response
  the code uses the status, through \<^verbatim>\<open>raise_for_status()\<close>, and the decoded body.
  \<open>http_error_text\<close> is the text of the \<^verbatim>\<open>HTTPError\<close> that \<^verbatim>\<open>raise_for_status()\<close> builds;
  \<open>json_body\<close> is \<open>Inr\<close> the decoded body, or \<open>Inl\<close> the text of the
  \<^verbatim>\<open>requests.exceptions.JSONDecodeError\<close> for a body that is not JSON (a
  \<^verbatim>\<open>RequestException\<close> since requests 2.27).
\<close>

record http_response =
  status_code :: nat
  http_error_text :: string
  json_body :: "string + pyval"

datatype http_result = RequestFails string | Responds http_response

text \<open>\<^verbatim>\<open>raise_for_status()\<close> raises for the statuses 400 to 599.\<close>

definition is_error_status :: "nat \<Rightarrow> bool" where
  "is_error_status code = (400 \<le> code \<and> code < 600)"

text \<open>
  The loop of \<^verbatim>\<open>fetch_latest_news\<close> over the candidates, with the \<^verbatim>\<open>return\<close> after it:
  the first candidate that the filter accepts is formatted and returned.
\<close>

fun scan_articles :: "(pyval \<Rightarrow> string) \<Rightarrow> pyval list \<Rightarrow> string \<Rightarrow> string result" where
  "scan_articles rnd [] query = Inr ''No sufficiently relevant articles found.''"
| "scan_articles rnd (article # rest) query =
     bind_result (is_relevant_article article query) (\<lambda>relevant.
       if relevant then
         bind_result (py_get article ''title'' PNone) (\<lambda>title.
         bind_result (py_get article ''description'' PNone) (\<lambda>description.
           Inr (py_str rnd title @ '': '' @ py_str rnd description)))
       else scan_articles rnd rest query)"

text \<open>
  \<^verbatim>\<open>fetch_latest_news(query)\<close>, given what the request of this call does. The two
  \<^verbatim>\<open>except\<close> clauses catch \<^verbatim>\<open>HTTPError\<close> and \<^verbatim>\<open>RequestException\<close> only and return the
  error text \<^verbatim>\<open>f"Error fetching news for {query}: {err}"\<close>; any other exception leaves
  the function. The calls to the logger are not modelled: they change neither the
  result nor the store.
\<close>

text \<open>The text \<^verbatim>\<open>f"Error fetching news for {query}: {err}"\<close> of the two handlers.\<close>

definition error_text :: "string \<Rightarrow> string \<Rightarrow> string" where
  "error_text query err = ''Error fetching news for '' @ query @ '': '' @ err"

definition fetch_latest_news :: "(pyval \<Rightarrow> string) \<Rightarrow> http_result \<Rightarrow> string \<Rightarrow> string result" where
  "fetch_latest_news rnd net query =
     (case net of
        RequestFails req_err \<Rightarrow> Inr (error_text query req_err)
      | Responds response \<Rightarrow>
          if is_error_status (status_code response)
          then Inr (error_text query (http_error_text response))
          else
            (case json_body response of
               Inl req_err \<Rightarrow> Inr (error_text query req_err)
             | Inr data \<Rightarrow>
                 bind_result (py_get data ''articles'' PNone) (\<lambda>articles.
                   if truthy articles
                   then bind_result (py_iter articles) (\<lambda>candidates. scan_articles rnd candidates query)
                   else Inr ''No articles found.'')))"

text \<open>
  The store is the environment too. What the model keeps of it is the sequence of rows
  handed to \<^verbatim>\<open>supabase.table(t).insert(row).execute()\<close>, each with its table. Whether the
  store then answers, reports an error or raises changes only what is logged:
  \<^verbatim>\<open>insert_news\<close> and \<^verbatim>\<open>store_price\<close> catch every exception of the call.
\<close>

type_synonym insert_call = "string \<times> (string \<times> pyval) list"

text \<open>\<^verbatim>\<open>insert_news(table, news)\<close>; \<open>now\<close> is the time stamp the clock gives at the call.\<close>

definition insert_news :: "string \<Rightarrow> string \<Rightarrow> string \<Rightarrow> insert_call list \<Rightarrow> insert_call list" where
  "insert_news now table news calls =
     calls @ [(table, [(''news'', PStr news), (''created_at'', PStr now)])]"

text \<open>
  \<^verbatim>\<open>main()\<close> of the news script: \<open>api\<close> gives what the request for a query does,
  \<open>clock\<close> the time stamp of the first and of the second insert. An exception that
  leaves \<^verbatim>\<open>fetch_latest_news\<close> ends the run with the inserts made so far.
\<close>

definition fetch_news_main ::
  "(pyval \<Rightarrow> string) \<Rightarrow> (string \<Rightarrow> http_result) \<Rightarrow> (nat \<Rightarrow> string) \<Rightarrow> insert_call list
     \<Rightarrow> unit result \<times> insert_call list" where
  "fetch_news_main rnd api clock calls =
     (let btc_query = ''Bitcoin''; eth_query = ''Ethereum'' in
      case fetch_latest_news rnd (api btc_query) btc_query of
        Inl e \<Rightarrow> (Inl e, calls)
      | Inr btc_news \<Rightarrow>
          let calls = insert_news (clock 0) ''btc_news'' btc_news calls in
          (case fetch_latest_news rnd (api eth_query) eth_query of
             Inl e \<Rightarrow> (Inl e, calls)
           | Inr eth_news \<Rightarrow> (Inr (), insert_news (clock 1) ''eth_news'' eth_news calls)))"

section \<open>Price ingestion\<close>

text \<open>
  \<^verbatim>\<open>fetch_crypto_price(crypto_id)\<close>: the request, the status check and the decoding are
  under \<^verbatim>\<open>except requests.RequestException\<close>, which returns \<^verbatim>\<open>None\<close>; so are the two
  subscripts \<^verbatim>\<open>data[crypto_id]['usd']\<close>, whose exceptions are not of that class.
\<close>

definition fetch_crypto_price :: "http_result \<Rightarrow> string \<Rightarrow> pyval result" where
  "fetch_crypto_price net crypto_id =
     (case net of
        RequestFails e \<Rightarrow> Inr PNone
      | Responds response \<Rightarrow>
          if is_error_status (status_code response) then Inr PNone
          else
            (case json_body response of
               Inl e \<Rightarrow> Inr PNone
             | Inr data \<Rightarrow>
                 bind_result (py_getitem data crypto_id) (\<lambda>quote.
                 bind_result (py_getitem quote ''usd'') (\<lambda>price. Inr price))))"

text \<open>\<^verbatim>\<open>store_price(table_name, price)\<close>: nothing is inserted for \<^verbatim>\<open>None\<close>.\<close>

definition store_price :: "string \<Rightarrow> string \<Rightarrow> pyval \<Rightarrow> insert_call list \<Rightarrow> insert_call list" where
  "store_price now table_name price calls =
     (if price = PNone then calls
      else calls @ [(table_name, [(''prices'', price), (''created_at'', PStr now)])])"

text \<open>\<^verbatim>\<open>main()\<close> of the price script: both prices are fetched, then both are stored.\<close>

definition btc_eth_price_main ::
  "(string \<Rightarrow> http_result) \<Rightarrow> (nat \<Rightarrow> string) \<Rightarrow> insert_call list \<Rightarrow> unit result \<times> insert_call list" where
  "btc_eth_price_main api clock calls =
     (case fetch_crypto_price (api ''bitcoin'') ''bitcoin'' of
        Inl e \<Rightarrow> (Inl e, calls)
      | Inr btc_price \<Rightarrow>
          (case fetch_crypto_price (api ''ethereum'') ''ethereum'' of
             Inl e \<Rightarrow> (Inl e, calls)
           | Inr eth_price \<Rightarrow>
               (Inr (), store_price (clock 1) ''eth_prices'' eth_price
                          (store_price (clock 0) ''btc_prices'' btc_price calls))))"

section \<open>The digest: reading the latest entries\<close>

text \<open>
  The digest script talks to three services. What each of them does is the
  environment's choice:
  \<^item> \<open>store_select k table column\<close> is the outcome of the \<open>k\<close>-th read of the run
    (counted from 0), \<^verbatim>\<open>supabase.table(table).select(column).order(...).limit(1).execute()\<close>:
    it raises, or it returns a response whose \<^verbatim>\<open>data\<close> is a list of rows;
  \<^item> \<open>chat_completion prompt\<close> is the outcome of the chat request together with the
    access \<^verbatim>\<open>response.choices[0].message.content\<close>: an exception, or the text;
  \<^item> \<open>smtp subject body\<close> is the outcome of the SMTP session: an exception before the
    message is handed over, a delivery, or an exception after \<^verbatim>\<open>sendmail\<close> (in
    \<^verbatim>\<open>quit\<close>);
  \<^item> \<open>utc_date\<close> is the date the clock gives for the subject line.
\<close>

datatype select_outcome = SelectRaises string | SelectReturns "pyval list"

datatype chat_outcome = ChatRaises string | ChatReplies string

datatype smtp_outcome = SmtpRaises string | SmtpDelivers | SmtpRaisesAfterSend string

record digest_env =
  store_select :: "nat \<Rightarrow> string \<Rightarrow> string \<Rightarrow> select_outcome"
  chat_completion :: "string \<Rightarrow> chat_outcome"
  smtp :: "string \<Rightarrow> string \<Rightarrow> smtp_outcome"
  utc_date :: string

text \<open>
  What a run does to the world: the number of reads sent to the store, the seconds
  slept between attempts, the lines logged at level INFO or above (the logger is set to
  INFO, so \<^verbatim>\<open>logger.debug\<close> writes nothing), the prompts sent to the text generator and
  the messages handed to the mail server, each with its subject.
\<close>

datatype level = INFO | WARNING | ERROR

record digest_world =
  store_reads :: nat
  sleeps :: "nat list"
  logged :: "(level \<times> string) list"
  prompts :: "string list"
  outbox :: "(string \<times> string) list"

definition log_line :: "level \<Rightarrow> string \<Rightarrow> digest_world \<Rightarrow> digest_world" where
  "log_line lvl msg w = w\<lparr>logged := logged w @ [(lvl, msg)]\<rparr>"

text \<open>
  The body of \<^verbatim>\<open>fetch_latest_entry\<close>, one attempt: an exception of the read is logged
  and raised again; a non-empty \<^verbatim>\<open>data\<close> gives its first row; an empty one is logged as a
  warning and gives the empty dict.
\<close>

definition fetch_latest_entry_body ::
  "digest_env \<Rightarrow> string \<Rightarrow> string \<Rightarrow> digest_world \<Rightarrow> pyval result \<times> digest_world" where
  "fetch_latest_entry_body env table column w =
     (let w1 = w\<lparr>store_reads := store_reads w + 1\<rparr> in
      case store_select env (store_reads w) table column of
        SelectRaises e \<Rightarrow>
          (Inl (StoreException e),
           log_line ERROR (''Exception while fetching from '' @ table @ '': '' @ e) w1)
      | SelectReturns data \<Rightarrow>
          (case data of
             row # _ \<Rightarrow> (Inr row, w1)
           | [] \<Rightarrow> (Inr (PDict []), log_line WARNING (''No data found in table '' @ table @ ''.'') w1)))"

text \<open>
  tenacity's \<^verbatim>\<open>@retry(stop=stop_after_attempt(n), wait=wait_fixed(secs))\<close> around \<open>fn\<close>,
  from attempt number \<open>attempt_number\<close> on. A value that \<open>fn\<close> returns is returned. When
  \<open>fn\<close> raises and the attempt number has reached \<open>n\<close>, the loop stops: as \<^verbatim>\<open>reraise\<close> is
  left at its default \<^verbatim>\<open>False\<close>, tenacity raises \<^verbatim>\<open>RetryError\<close> from the last exception.
  Otherwise it sleeps \<open>secs\<close> seconds and calls \<open>fn\<close> again.
\<close>

function retrying ::
  "nat \<Rightarrow> nat \<Rightarrow> (digest_world \<Rightarrow> 'a result \<times> digest_world) \<Rightarrow> nat \<Rightarrow> digest_world
     \<Rightarrow> 'a result \<times> digest_world" where
  "retrying n secs fn attempt_number w =
     (case fn w of
        (Inr v, w1) \<Rightarrow> (Inr v, w1)
      | (Inl e, w1) \<Rightarrow>
          if attempt_number \<ge> n then (Inl (RetryError e), w1)
          else retrying n secs fn (attempt_number + 1) (w1\<lparr>sleeps := sleeps w1 @ [secs]\<rparr>))"
  by pat_completeness auto
termination
  by (relation "measure (\<lambda>(n, secs, fn, attempt_number, w). n - attempt_number)") auto

declare retrying.simps [simp del]

text \<open>\<^verbatim>\<open>fetch_latest_entry(table, column)\<close> as the decorator leaves it: 3 attempts, 5 seconds.\<close>

definition fetch_latest_entry ::
  "digest_env \<Rightarrow> string \<Rightarrow> string \<Rightarrow> digest_world \<Rightarrow> pyval result \<times> digest_world" where
  "fetch_latest_entry env table column w =
     retrying 3 5 (fetch_latest_entry_body env table column) 1 w"

section \<open>The digest: summary, mail and the main flow\<close>

text \<open>
  \<^verbatim>\<open>str.strip()\<close>: the white space at both ends goes. Below 256 the white space
  characters are U+0009 to U+000D, U+001C to U+0020, U+0085 and U+00A0.
\<close>

definition is_space :: "char \<Rightarrow> bool" where
  "is_space c =
     (let n = (of_char c :: nat) in (9 \<le> n \<and> n \<le> 13) \<or> (28 \<le> n \<and> n \<le> 32) \<or> n = 133 \<or> n = 160)"

definition strip :: "string \<Rightarrow> string" where
  "strip s = rev (dropWhile is_space (rev (dropWhile is_space s)))"

text \<open>
  \<^verbatim>\<open>generate_summary(prompt)\<close>: every exception of the \<^verbatim>\<open>try\<close> block is logged and
  replaced by the fallback text.
\<close>

definition generate_summary :: "digest_env \<Rightarrow> string \<Rightarrow> digest_world \<Rightarrow> string \<times> digest_world" where
  "generate_summary env prompt w =
     (let w1 = w\<lparr>prompts := prompts w @ [prompt]\<rparr> in
      case chat_completion env prompt of
        ChatReplies content \<Rightarrow> (strip content, w1)
      | ChatRaises e \<Rightarrow>
          (''Summary generation failed.'', log_line ERROR (''Error generating summary: '' @ e) w1))"

text \<open>\<^verbatim>\<open>send_email(subject, body)\<close>: every exception is logged and gives \<^verbatim>\<open>False\<close>.\<close>

definition send_email :: "digest_env \<Rightarrow> string \<Rightarrow> string \<Rightarrow> digest_world \<Rightarrow> bool \<times> digest_world" where
  "send_email env subject body w =
     (case smtp env subject body of
        SmtpRaises e \<Rightarrow> (False, log_line ERROR (''Exception while sending email: '' @ e) w)
      | SmtpDelivers \<Rightarrow>
          (True, log_line INFO ''Email sent successfully.'' (w\<lparr>outbox := outbox w @ [(subject, body)]\<rparr>))
      | SmtpRaisesAfterSend e \<Rightarrow>
          (False, log_line ERROR (''Exception while sending email: '' @ e)
                    (w\<lparr>outbox := outbox w @ [(subject, body)]\<rparr>)))"

definition compose_email :: "string \<Rightarrow> string \<Rightarrow> string" where
  "compose_email btc_summary eth_summary =
     ''**Bitcoin (BTC) Summary:**'' @ [CHR 0x0A] @ btc_summary @ [CHR 0x0A, CHR 0x0A]
     @ ''**Ethereum (ETH) Summary:**'' @ [CHR 0x0A] @ eth_summary"

text \<open>A call that may raise and changes the world, followed by the rest of the flow.\<close>

definition then_do ::
  "'a result \<times> 'w \<Rightarrow> ('a \<Rightarrow> 'w \<Rightarrow> 'b result \<times> 'w) \<Rightarrow> 'b result \<times> 'w" where
  "then_do r f = (case r of (Inl e, w) \<Rightarrow> (Inl e, w) | (Inr v, w) \<Rightarrow> f v w)"

text \<open>
  \<^verbatim>\<open>main()\<close> of the digest script. The four entries are read first; an exception of a
  read ends the run. Then the two checks, each of which logs and returns; then the
  prompts, the summaries, the mail.
\<close>

definition send_summary_main ::
  "(pyval \<Rightarrow> string) \<Rightarrow> digest_env \<Rightarrow> digest_world \<Rightarrow> unit result \<times> digest_world" where
  "send_summary_main rnd env w0 =
     then_do (fetch_latest_entry env ''btc_prices'' ''prices'' w0) (\<lambda>btc_price_entry w1.
     then_do (fetch_latest_entry env ''btc_news'' ''news'' w1) (\<lambda>btc_news_entry w2.
     then_do (fetch_latest_entry env ''eth_prices'' ''prices'' w2) (\<lambda>eth_price_entry w3.
     then_do (fetch_latest_entry env ''eth_news'' ''news'' w3) (\<lambda>eth_news_entry w4.
       if \<not> truthy btc_price_entry \<or> \<not> truthy btc_news_entry
       then (Inr (), log_line ERROR ''Incomplete BTC data. Aborting email composition.'' w4)
       else if \<not> truthy eth_price_entry \<or> \<not> truthy eth_news_entry
       then (Inr (), log_line ERROR ''Incomplete ETH data. Aborting email composition.'' w4)
       else
         then_do (py_get btc_price_entry ''prices'' (PStr ''N/A''), w4) (\<lambda>btc_price w.
         then_do (py_get btc_news_entry ''news'' (PStr ''N/A''), w) (\<lambda>btc_news w.
         then_do (py_get eth_price_entry ''prices'' (PStr ''N/A''), w) (\<lambda>eth_price w.
         then_do (py_get eth_news_entry ''news'' (PStr ''N/A''), w) (\<lambda>eth_news w.
           let btc_prompt =
                 ''Provide a concise 100-word analysis based on the following Bitcoin price and news:''
                 @ [CHR 0x0A] @ ''Price: $'' @ py_str rnd btc_price
                 @ [CHR 0x0A] @ ''News: '' @ py_str rnd btc_news;
               eth_prompt =
                 ''Provide a concise 100-word analysis based on the following Ethereum price and news:''
                 @ [CHR 0x0A] @ ''Price: $'' @ py_str rnd eth_price
                 @ [CHR 0x0A] @ ''News: '' @ py_str rnd eth_news;
               (btc_summary, w5) = generate_summary env btc_prompt w;
               (eth_summary, w6) = generate_summary env eth_prompt w5;
               email_subject = ''Crypto Update - '' @ utc_date env;
               email_body = compose_email btc_summary eth_summary;
               (sent, w7) = send_email env email_subject email_body w6
           in (Inr (), w7)))))))))"

section \<open>Well-formed candidates\<close>

text \<open>
  A candidate field reads as the string \<open>s\<close>: the key is present with the \<^verbatim>\<open>str\<close> value
  \<open>s\<close>, or it is absent and \<open>s\<close> is empty (the default of \<^verbatim>\<open>article.get(key, '')\<close>).
\<close>

definition str_field :: "(string \<times> pyval) list \<Rightarrow> string \<Rightarrow> string \<Rightarrow> bool" where
  "str_field kvs key s = (case map_of kvs key of None \<Rightarrow> s = [] | Some v \<Rightarrow> v = PStr s)"

text \<open>
  The string \<open>sub\<close> occurs twice in \<open>s\<close>, at places that do not overlap.
\<close>

definition occurs_twice :: "string \<Rightarrow> string \<Rightarrow> bool" where
  "occurs_twice sub s = (\<exists>p q r. s = p @ sub @ q @ sub @ r)"

text \<open>A response with status 200 and the decoded body \<open>data\<close>.\<close>

definition ok_response :: "pyval \<Rightarrow> http_result" where
  "ok_response data = Responds \<lparr>status_code = 200, http_error_text = [], json_body = Inr data\<rparr>"

text \<open>
  The response carries the value \<open>articles\<close> under the key \<^verbatim>\<open>articles\<close>: the request
  returned, the status is no error, the body is JSON and \<^verbatim>\<open>data.get('articles')\<close> gives
  \<open>articles\<close>. The provider returned the candidates \<open>xs\<close> when that value is the list
  \<open>PList xs\<close>.
\<close>

definition returns_articles :: "http_result \<Rightarrow> pyval \<Rightarrow> bool" where
  "returns_articles net articles =
     (case net of
        RequestFails e \<Rightarrow> False
      | Responds response \<Rightarrow>
          \<not> is_error_status (status_code response)
          \<and> (case json_body response of
                Inl e \<Rightarrow> False
              | Inr data \<Rightarrow> py_get data ''articles'' PNone = Inr articles))"

text \<open>
  The text \<^verbatim>\<open>f"{title}: {description}"\<close> of a candidate, with \<^verbatim>\<open>article.get('title')\<close> and
  \<^verbatim>\<open>article.get('description')\<close> for the two values (an absent key shows as \<^verbatim>\<open>None\<close>).
\<close>

definition article_text :: "(pyval \<Rightarrow> string) \<Rightarrow> (string \<times> pyval) list \<Rightarrow> string" where
  "article_text rnd kvs =
     py_str rnd (case map_of kvs ''title'' of None \<Rightarrow> PNone | Some v \<Rightarrow> v) @ '': ''
     @ py_str rnd (case map_of kvs ''description'' of None \<Rightarrow> PNone | Some v \<Rightarrow> v)"

text \<open>
  The kinds of string \<^verbatim>\<open>fetch_latest_news\<close> returns for a query: the text of a candidate of
  the response that the filter accepted, one of the two sentinels, or an error text.
\<close>

definition passed_filter :: "(pyval \<Rightarrow> string) \<Rightarrow> http_result \<Rightarrow> string \<Rightarrow> string \<Rightarrow> bool" where
  "passed_filter rnd net query s =
     (\<exists>xs kvs. returns_articles net (PList xs) \<and> PDict kvs \<in> set xs
        \<and> is_relevant_article (PDict kvs) query = Inr True \<and> s = article_text rnd kvs)"

definition news_kind :: "(pyval \<Rightarrow> string) \<Rightarrow> http_result \<Rightarrow> string \<Rightarrow> string \<Rightarrow> bool" where
  "news_kind rnd net query s =
     (passed_filter rnd net query s
      \<or> s = ''No sufficiently relevant articles found.''
      \<or> s = ''No articles found.''
      \<or> (\<exists>err. s = error_text query err))"

text \<open>
  An insert of the news script that carries a returned value: the row holds the string
  that \<^verbatim>\<open>fetch_latest_news\<close> returned for the query of its table, and a time stamp.
\<close>

definition returned_news_row ::
  "(pyval \<Rightarrow> string) \<Rightarrow> (string \<Rightarrow> http_result) \<Rightarrow> insert_call \<Rightarrow> bool" where
  "returned_news_row rnd api call =
     (\<exists>query s now.
        ((fst call = ''btc_news'' \<and> query = ''Bitcoin'')
         \<or> (fst call = ''eth_news'' \<and> query = ''Ethereum''))
        \<and> fetch_latest_news rnd (api query) query = Inr s
        \<and> snd call = [(''news'', PStr s), (''created_at'', PStr now)]
        \<and> news_kind rnd (api query) query s)"

text \<open>The line that \<^verbatim>\<open>fetch_latest_entry\<close> logs for an exception of the read.\<close>

definition read_error :: "string \<Rightarrow> string \<Rightarrow> level \<times> string" where
  "read_error table e = (ERROR, ''Exception while fetching from '' @ table @ '': '' @ e)"

section \<open>Example environments\<close>

text \<open>Values other than strings, \<^verbatim>\<open>None\<close> and bools shown as the empty text.\<close>

definition no_render :: "pyval \<Rightarrow> string" where
  "no_render v = []"

definition fixed_clock :: "nat \<Rightarrow> string" where
  "fixed_clock k = ''2024-05-01T00:00:00+00:00''"

text \<open>A news provider that answers every query with an empty list of articles.\<close>

definition api_no_articles :: "string \<Rightarrow> http_result" where
  "api_no_articles query = ok_response (PDict [(''articles'', PList [])])"

text \<open>Three candidates: one that the filter rejects for Bitcoin and two that it accepts.\<close>

definition markets_today :: "(string \<times> pyval) list" where
  "markets_today =
     [(''title'', PStr ''Markets today''), (''description'', PStr ''Bitcoin fell''),
      (''content'', PStr ''Stocks rose'')]"

definition bitcoin_rallies :: "(string \<times> pyval) list" where
  "bitcoin_rallies =
     [(''title'', PStr ''Bitcoin rallies''), (''description'', PStr ''Up 5 percent''),
      (''content'', PStr [])]"

definition miners_sell :: "(string \<times> pyval) list" where
  "miners_sell =
     [(''title'', PStr ''Miners sell''), (''description'', PStr ''Bitcoin miners sold''),
      (''content'', PStr ''The bitcoin price fell'')]"

text \<open>A news provider that answers every query with the same two candidates.\<close>

definition api_two_articles :: "string \<Rightarrow> http_result" where
  "api_two_articles query =
     ok_response (PDict [(''articles'', PList [PDict markets_today, PDict bitcoin_rallies])])"

text \<open>A candidate as the provider sends it when it has no description: the field is null.\<close>

definition null_description :: "(string \<times> pyval) list" where
  "null_description =
     [(''title'', PStr ''Bitcoin hits a new high''), (''description'', PNone),
      (''content'', PStr ''Bitcoin rose again.'')]"

text \<open>The same with a title that does not hold the query.\<close>

definition off_topic_null_description :: "(string \<times> pyval) list" where
  "off_topic_null_description =
     [(''title'', PStr ''Markets today''), (''description'', PNone),
      (''content'', PStr ''Stocks rose'')]"

text \<open>
  A news provider that answers the query Bitcoin with a well-formed candidate and every
  other query with a candidate whose description is null.
\<close>

definition api_ethereum_malformed :: "string \<Rightarrow> http_result" where
  "api_ethereum_malformed query =
     (if query = ''Bitcoin''
      then ok_response (PDict [(''articles'', PList [PDict bitcoin_rallies])])
      else ok_response (PDict [(''articles'', PList [PDict null_description])]))"

text \<open>The world before a run of the digest script.\<close>

definition fresh_world :: digest_world where
  "fresh_world = \<lparr>store_reads = 0, sleeps = [], logged = [], prompts = [], outbox = []\<rparr>"

text \<open>A store whose every read raises; one whose first two reads raise.\<close>

definition store_down :: digest_env where
  "store_down =
     \<lparr>store_select = (\<lambda>k table column. SelectRaises ''connection reset''),
      chat_completion = (\<lambda>prompt. ChatReplies ''Prices are up.''),
      smtp = (\<lambda>subject body. SmtpDelivers),
      utc_date = ''2024-05-01''\<rparr>"

definition store_up_at_third :: digest_env where
  "store_up_at_third =
     \<lparr>store_select = (\<lambda>k table column.
        if k < 2 then SelectRaises ''connection reset''
        else SelectReturns [PDict [(column, PNum 61234.5)]]),
      chat_completion = (\<lambda>prompt. ChatReplies ''Prices are up.''),
      smtp = (\<lambda>subject body. SmtpDelivers),
      utc_date = ''2024-05-01''\<rparr>"

text \<open>A store with one row in each table; the same with no row in \<^verbatim>\<open>eth_news\<close>.\<close>

definition store_complete :: digest_env where
  "store_complete =
     \<lparr>store_select = (\<lambda>k table column. SelectReturns [PDict [(column, PStr ''up'')]]),
      chat_completion = (\<lambda>prompt. ChatReplies ''Prices are up.''),
      smtp = (\<lambda>subject body. SmtpDelivers),
      utc_date = ''2024-05-01''\<rparr>"

definition store_without_eth_news :: digest_env where
  "store_without_eth_news =
     \<lparr>store_select = (\<lambda>k table column.
        if table = ''eth_news'' then SelectReturns []
        else SelectReturns [PDict [(column, PStr ''up'')]]),
      chat_completion = (\<lambda>prompt. ChatReplies ''Prices are up.''),
      smtp = (\<lambda>subject body. SmtpDelivers),
      utc_date = ''2024-05-01''\<rparr>"

section \<open>Properties of the built-ins\<close>

lemma bind_result_Inr [simp]: "bind_result (Inr v) f = f v"
  by (simp add: bind_result_def)

lemma bind_result_Inl [simp]: "bind_result (Inl e) f = Inl e"
  by (simp add: bind_result_def)

lemma starts_with_prefix: "starts_with s sub = prefix sub s"
  by (induction s sub rule: starts_with.induct) auto

text \<open>\<^verbatim>\<open>sub in s\<close> is the substring relation: \<open>s = ps @ sub @ ss\<close> for some \<open>ps\<close>, \<open>ss\<close>.\<close>

lemma str_contains_sublist: "str_contains s sub = sublist sub s"
  by (induction s) (auto simp: starts_with_prefix sublist_Cons_right)

text \<open>\<^verbatim>\<open>s.count(sub)\<close> is positive exactly when \<open>sub\<close> occurs in \<open>s\<close>.\<close>

lemma str_count_pos: "sub \<noteq> [] \<Longrightarrow> (0 < str_count s sub) = sublist sub s"
proof (induction s sub rule: str_count.induct)
  case (1 s sub)
  show ?case
  proof (cases s)
    case Nil
    with 1 show ?thesis by (simp add: str_count.simps[of "[]"])
  next
    case (Cons a s')
    show ?thesis
    proof (cases "starts_with s sub")
      case True
      then show ?thesis using 1(3) Cons
        by (subst str_count.simps) (auto simp: starts_with_prefix sublist_Cons_right)
    next
      case False
      then show ?thesis using 1 Cons
        by (subst str_count.simps) (auto simp: starts_with_prefix sublist_Cons_right)
    qed
  qed
qed

text \<open>
  \<^verbatim>\<open>s.count(sub)\<close> is at least 2 exactly when \<open>sub\<close> occurs twice in \<open>s\<close> without overlap;
  the counts of two strings add up to 2 or more when one of them holds two such
  occurrences or each holds one.
\<close>

lemma str_count_unfold_match:
  "sub \<noteq> [] \<Longrightarrow> str_count (sub @ rest) sub = 1 + str_count rest sub"
  by (subst str_count.simps) (simp add: starts_with_prefix)

lemma str_count_unfold_skip:
  "sub \<noteq> [] \<Longrightarrow> \<not> prefix sub (a # s) \<Longrightarrow> str_count (a # s) sub = str_count s sub"
  by (subst str_count.simps) (simp add: starts_with_prefix)

lemma occurs_twice_match:
  assumes "sub \<noteq> []"
  shows "occurs_twice sub (sub @ rest) = sublist sub rest"
proof
  assume "sublist sub rest"
  then obtain q r where "rest = q @ sub @ r" by (auto simp: sublist_def)
  then have "sub @ rest = [] @ sub @ q @ sub @ r" by simp
  then show "occurs_twice sub (sub @ rest)" unfolding occurs_twice_def by blast
next
  assume "occurs_twice sub (sub @ rest)"
  then obtain p q r where e: "sub @ rest = p @ sub @ q @ sub @ r"
    unfolding occurs_twice_def by blast
  have "rest = drop (length sub) (sub @ rest)" by simp
  also have "\<dots> = drop (length sub) ((p @ sub @ q) @ sub @ r)" using e by simp
  also have "\<dots> = drop (length sub) (p @ sub @ q) @ sub @ r" by simp
  finally have "rest = drop (length sub) (p @ sub @ q) @ sub @ r" .
  then show "sublist sub rest" unfolding sublist_def by blast
qed

lemma occurs_twice_skip:
  assumes "\<not> prefix sub (a # s)"
  shows "occurs_twice sub (a # s) = occurs_twice sub s"
proof
  assume "occurs_twice sub s"
  then obtain p q r where "s = p @ sub @ q @ sub @ r" unfolding occurs_twice_def by blast
  then have "a # s = (a # p) @ sub @ q @ sub @ r" by simp
  then show "occurs_twice sub (a # s)" unfolding occurs_twice_def by blast
next
  assume "occurs_twice sub (a # s)"
  then obtain p q r where e: "a # s = p @ sub @ q @ sub @ r" unfolding occurs_twice_def by blast
  show "occurs_twice sub s"
  proof (cases p)
    case Nil
    with e have "prefix sub (a # s)" by (simp add: prefix_def)
    with assms show ?thesis by simp
  next
    case (Cons b p')
    with e have "s = p' @ sub @ q @ sub @ r" by simp
    then show ?thesis unfolding occurs_twice_def by blast
  qed
qed

lemma str_count_two: "sub \<noteq> [] \<Longrightarrow> (2 \<le> str_count s sub) = occurs_twice sub s"
proof (induction s)
  case Nil
  then show ?case by (simp add: str_count.simps[of "[]"] occurs_twice_def)
next
  case (Cons a s)
  show ?case
  proof (cases "prefix sub (a # s)")
    case True
    then obtain rest where r: "a # s = sub @ rest" by (auto simp: prefix_def)
    have "(2 \<le> str_count (sub @ rest) sub) = (0 < str_count rest sub)"
      using Cons.prems by (simp add: str_count_unfold_match Suc_le_eq)
    also have "\<dots> = sublist sub rest" using Cons.prems by (rule str_count_pos)
    also have "\<dots> = occurs_twice sub (sub @ rest)"
      using Cons.prems by (simp add: occurs_twice_match)
    finally show ?thesis using r by simp
  next
    case False
    then show ?thesis using Cons by (simp add: str_count_unfold_skip occurs_twice_skip)
  qed
qed

lemma count_sum_two:
  assumes "sub \<noteq> []"
  shows "(2 \<le> str_count d sub + str_count c sub) =
         (occurs_twice sub d \<or> occurs_twice sub c \<or> (sublist sub d \<and> sublist sub c))"
proof -
  have "(2 \<le> str_count d sub + str_count c sub) =
        (2 \<le> str_count d sub \<or> 2 \<le> str_count c sub \<or> (0 < str_count d sub \<and> 0 < str_count c sub))"
    by arith
  then show ?thesis using assms by (simp add: str_count_two str_count_pos)
qed

lemma field_lower:
  "str_field kvs key s \<Longrightarrow>
     py_lower (case map_of kvs key of None \<Rightarrow> PStr [] | Some v \<Rightarrow> v) = Inr (lower s)"
  by (auto simp: str_field_def split: option.splits)

section \<open>The relevance filter\<close>

text \<open>What the filter computes from the three fields of a well-formed candidate.\<close>

lemma relevant_by_fields:
  assumes "str_field kvs ''title'' t"
    and "str_field kvs ''description'' d"
    and "str_field kvs ''content'' c"
  shows "is_relevant_article (PDict kvs) k =
         Inr (sublist (lower k) (lower t)
              \<or> 2 \<le> str_count (lower d) (lower k) + str_count (lower c) (lower k))"
  using assms
  by (simp add: is_relevant_article_def field_lower str_contains_sublist Let_def)

text \<open>
  C1. For a candidate whose title, description and content read as the strings \<open>t\<close>,
  \<open>d\<close> and \<open>c\<close>, and for every keyword \<open>k\<close>, \<^verbatim>\<open>is_relevant_article\<close> returns \<^verbatim>\<open>True\<close> if
  and only if the lowercased keyword is a substring of the lowercased title, or the
  occurrences of the lowercased keyword that \<^verbatim>\<open>count\<close> finds in the lowercased description
  and in the lowercased content add up to at least 2. For a non-empty keyword that sum
  is at least 2 exactly when the keyword occurs twice without overlap in the
  description, or twice in the content, or once in each. The three cases of the claim
  (a title match alone is accepted, one mention in the description alone is rejected,
  one in the description and one in the content are accepted) are instances.
\<close>

theorem is_relevant_article_iff:
  assumes "str_field kvs ''title'' t"
    and "str_field kvs ''description'' d"
    and "str_field kvs ''content'' c"
  shows "is_relevant_article (PDict kvs) k =
         Inr (sublist (lower k) (lower t)
              \<or> 2 \<le> str_count (lower d) (lower k) + str_count (lower c) (lower k))
         \<and> (k \<noteq> [] \<longrightarrow>
              (2 \<le> str_count (lower d) (lower k) + str_count (lower c) (lower k)) =
              (occurs_twice (lower k) (lower d) \<or> occurs_twice (lower k) (lower c)
               \<or> (sublist (lower k) (lower d) \<and> sublist (lower k) (lower c))))"
  using relevant_by_fields [OF assms, of k] count_sum_two [of "lower k" "lower d" "lower c"]
  by (simp add: lower_def)

theorem is_relevant_article_iff_witness:
  "is_relevant_article
     (PDict [(''title'', PStr ''Bitcoin rallies''), (''description'', PStr []),
             (''content'', PStr [])]) ''Bitcoin'' = Inr True
   \<and> is_relevant_article
     (PDict [(''title'', PStr ''Markets today''), (''description'', PStr ''Bitcoin fell''),
             (''content'', PStr ''Stocks rose'')]) ''Bitcoin'' = Inr False
   \<and> is_relevant_article
     (PDict [(''title'', PStr ''Markets today''), (''description'', PStr ''Bitcoin fell''),
             (''content'', PStr ''Miners sold bitcoin'')]) ''Bitcoin'' = Inr True"
proof -
  have a: "(sublist (lower ''Bitcoin'') (lower ''Bitcoin rallies'')
            \<or> 2 \<le> str_count (lower []) (lower ''Bitcoin'')
                  + str_count (lower []) (lower ''Bitcoin'')) = True"
    by code_simp
  have b: "(sublist (lower ''Bitcoin'') (lower ''Markets today'')
            \<or> 2 \<le> str_count (lower ''Bitcoin fell'') (lower ''Bitcoin'')
                  + str_count (lower ''Stocks rose'') (lower ''Bitcoin'')) = False"
    by code_simp
  have c: "(sublist (lower ''Bitcoin'') (lower ''Markets today'')
            \<or> 2 \<le> str_count (lower ''Bitcoin fell'') (lower ''Bitcoin'')
                  + str_count (lower ''Miners sold bitcoin'') (lower ''Bitcoin'')) = True"
    by code_simp
  show ?thesis
    using
      is_relevant_article_iff [of "[(''title'', PStr ''Bitcoin rallies''),
        (''description'', PStr []), (''content'', PStr [])]"
        "''Bitcoin rallies''" "[]" "[]" "''Bitcoin''"]
      is_relevant_article_iff [of "[(''title'', PStr ''Markets today''),
        (''description'', PStr ''Bitcoin fell''), (''content'', PStr ''Stocks rose'')]"
        "''Markets today''" "''Bitcoin fell''" "''Stocks rose''" "''Bitcoin''"]
      is_relevant_article_iff [of "[(''title'', PStr ''Markets today''),
        (''description'', PStr ''Bitcoin fell''), (''content'', PStr ''Miners sold bitcoin'')]"
        "''Markets today''" "''Bitcoin fell''" "''Miners sold bitcoin''" "''Bitcoin''"]
    unfolding a b c by (simp add: str_field_def)
qed

section \<open>Price ingestion: properties\<close>

text \<open>
  What the price fetch gives: \<^verbatim>\<open>None\<close> for a request that fails and for an error status,
  the number under \<^verbatim>\<open>usd\<close> for a well-formed quote. When both fetches give \<^verbatim>\<open>None\<close>, the
  run inserts nothing.
\<close>

lemma failed_fetches_store_nothing:
  "fetch_crypto_price (api ''bitcoin'') ''bitcoin'' = Inr PNone \<Longrightarrow>
   fetch_crypto_price (api ''ethereum'') ''ethereum'' = Inr PNone \<Longrightarrow>
   btc_eth_price_main api clock calls = (Inr (), calls)"
  by (simp add: btc_eth_price_main_def store_price_def)

lemma http_error_gives_none:
  "is_error_status (status_code r) \<Longrightarrow> fetch_crypto_price (Responds r) crypto_id = Inr PNone"
  "fetch_crypto_price (RequestFails e) crypto_id = Inr PNone"
  by (simp_all add: fetch_crypto_price_def)

lemma well_formed_quote:
  "fetch_crypto_price (ok_response (PDict [(''bitcoin'', PDict [(''usd'', PNum 61234.5)])])) ''bitcoin''
     = Inr (PNum 61234.5)"
  by (simp add: fetch_crypto_price_def ok_response_def is_error_status_def)

text \<open>
  C9. \<^verbatim>\<open>store_price\<close> called with \<^verbatim>\<open>None\<close> hands no row to the store: the sequence of
  inserts is the one before the call.
\<close>

theorem store_price_none_no_insert: "store_price now table_name PNone calls = calls"
  by (simp add: store_price_def)

text \<open>
  C5. A response with status 200 whose body is the empty JSON object, for the asset
  \<^verbatim>\<open>bitcoin\<close>: the subscript \<^verbatim>\<open>data['bitcoin']\<close> raises \<^verbatim>\<open>KeyError\<close>, which
  \<^verbatim>\<open>except requests.RequestException\<close> does not catch, and the exception reaches the
  caller. The same holds when the asset is there and the key \<^verbatim>\<open>usd\<close> is not.
\<close>

theorem fetch_crypto_price_missing_key_raises:
  "fetch_crypto_price (ok_response (PDict [])) ''bitcoin'' = Inl (KeyError ''bitcoin'')
   \<and> fetch_crypto_price (ok_response (PDict [(''bitcoin'', PDict [])])) ''bitcoin''
       = Inl (KeyError ''usd'')"
  by (simp add: fetch_crypto_price_def ok_response_def is_error_status_def)

section \<open>News ingestion: properties\<close>

lemma fetch_returns_articles:
  "returns_articles net articles \<Longrightarrow>
   fetch_latest_news rnd net q =
     (if truthy articles then bind_result (py_iter articles) (\<lambda>xs. scan_articles rnd xs q)
      else Inr ''No articles found.'')"
  by (auto simp: returns_articles_def fetch_latest_news_def split: http_result.splits sum.splits)

lemma scan_articles_first:
  "\<forall>p\<in>set pre. is_relevant_article p q = Inr False \<Longrightarrow>
   is_relevant_article (PDict kvs) q = Inr True \<Longrightarrow>
   scan_articles rnd (pre @ PDict kvs # post) q = Inr (article_text rnd kvs)"
  by (induction pre) (auto simp: article_text_def)

lemma scan_articles_none:
  "\<forall>p\<in>set xs. is_relevant_article p q = Inr False \<Longrightarrow>
   scan_articles rnd xs q = Inr ''No sufficiently relevant articles found.''"
  by (induction xs) auto

text \<open>A candidate that the filter accepts is a dict; what the loop returns is its text.\<close>

lemma scan_articles_result:
  "scan_articles rnd xs q = Inr s \<Longrightarrow>
   s = ''No sufficiently relevant articles found.''
   \<or> (\<exists>kvs. PDict kvs \<in> set xs \<and> is_relevant_article (PDict kvs) q = Inr True
             \<and> s = article_text rnd kvs)"
proof (induction xs)
  case Nil
  then show ?case by simp
next
  case (Cons a xs)
  show ?case
  proof (cases "is_relevant_article a q")
    case (Inl e)
    with Cons.prems show ?thesis by simp
  next
    case (Inr b)
    show ?thesis
    proof (cases b)
      case False
      with Inr Cons show ?thesis by auto
    next
      case True
      with Inr obtain kvs where a: "a = PDict kvs"
        by (cases a) (auto simp: is_relevant_article_def)
      with True Inr Cons.prems show ?thesis by (auto simp: article_text_def)
    qed
  qed
qed

text \<open>
  The fields of an accepted candidate that the text shows are strings or absent, so the
  text does not depend on how other values would be shown.
\<close>

lemma accepted_fields_are_strings:
  assumes "is_relevant_article (PDict kvs) q = Inr b"
  shows "\<exists>t d c. str_field kvs ''title'' t \<and> str_field kvs ''description'' d
               \<and> str_field kvs ''content'' c"
proof -
  have f: "\<exists>s. str_field kvs key s"
    if "py_lower (case map_of kvs key of None \<Rightarrow> PStr [] | Some v \<Rightarrow> v) = Inr l" for key l
  proof (cases "map_of kvs key")
    case None
    then show ?thesis by (simp add: str_field_def)
  next
    case (Some v)
    with that show ?thesis by (cases v) (auto simp: str_field_def)
  qed
  from assms show ?thesis
    by (auto simp: is_relevant_article_def bind_result_def split: sum.splits dest!: f)
qed

lemma shown_field_independent:
  "str_field kvs key s \<Longrightarrow>
   py_str rnd (case map_of kvs key of None \<Rightarrow> PNone | Some v \<Rightarrow> v)
   = py_str rnd' (case map_of kvs key of None \<Rightarrow> PNone | Some v \<Rightarrow> v)"
  by (auto simp: str_field_def split: option.splits)

lemma accepted_text_independent:
  assumes "is_relevant_article (PDict kvs) q = Inr b"
  shows "article_text rnd kvs = article_text rnd' kvs"
proof -
  from accepted_fields_are_strings [OF assms] obtain t d where
    "str_field kvs ''title'' t" "str_field kvs ''description'' d" by blast
  then show ?thesis
    unfolding article_text_def
    using shown_field_independent [of kvs "''title''" t rnd rnd']
      shown_field_independent [of kvs "''description''" d rnd rnd']
    by simp
qed

text \<open>
  So the result of \<^verbatim>\<open>fetch_latest_news\<close> is the same for every choice of \<open>rnd\<close>.
\<close>

lemma scan_articles_independent: "scan_articles rnd xs q = scan_articles rnd' xs q"
proof (induction xs)
  case Nil
  show ?case by simp
next
  case (Cons a xs)
  show ?case
  proof (cases "is_relevant_article a q")
    case (Inl e)
    then show ?thesis by simp
  next
    case (Inr b)
    show ?thesis
    proof (cases b)
      case False
      with Inr Cons show ?thesis by simp
    next
      case True
      with Inr obtain kvs where a: "a = PDict kvs"
        by (cases a) (auto simp: is_relevant_article_def)
      from Inr a have "article_text rnd kvs = article_text rnd' kvs"
        by (intro accepted_text_independent) simp
      with True Inr a show ?thesis by (simp add: article_text_def)
    qed
  qed
qed

lemma fetch_latest_news_independent:
  "fetch_latest_news rnd net q = fetch_latest_news rnd' net q"
  by (simp add: fetch_latest_news_def scan_articles_independent [of rnd _ q rnd']
      cong: http_result.case_cong sum.case_cong if_cong)

text \<open>
  First match among candidates that the filter evaluates. The provider returned the
  candidates \<open>pre @ PDict kvs # post\<close>; the filter returns \<^verbatim>\<open>False\<close> for every candidate of
  \<open>pre\<close> and \<^verbatim>\<open>True\<close> for \<open>PDict kvs\<close>. Then \<^verbatim>\<open>fetch_latest_news\<close> returns the text of
  \<open>PDict kvs\<close>, whatever \<open>post\<close> holds: nothing behind the first match is looked at. And
  when another accepted candidate \<open>PDict kvs'\<close> of \<open>post\<close> changes places with \<open>PDict kvs\<close>,
  the text returned is that of \<open>PDict kvs'\<close>.
\<close>

lemma first_match_of_evaluated:
  assumes "\<forall>p\<in>set pre. is_relevant_article p q = Inr False"
    and "is_relevant_article (PDict kvs) q = Inr True"
    and "returns_articles net (PList (pre @ PDict kvs # post))"
  shows "fetch_latest_news rnd net q = Inr (article_text rnd kvs)
         \<and> (\<forall>net' kvs' mid post'.
               post = mid @ PDict kvs' # post'
               \<and> is_relevant_article (PDict kvs') q = Inr True
               \<and> returns_articles net' (PList (pre @ PDict kvs' # mid @ PDict kvs # post'))
               \<longrightarrow> fetch_latest_news rnd net' q = Inr (article_text rnd kvs'))"
  using assms by (auto simp: fetch_returns_articles scan_articles_first)

lemma markets_today_rejected: "is_relevant_article (PDict markets_today) ''Bitcoin'' = Inr False"
  unfolding markets_today_def by code_simp

lemma bitcoin_rallies_accepted: "is_relevant_article (PDict bitcoin_rallies) ''Bitcoin'' = Inr True"
  unfolding bitcoin_rallies_def by code_simp

lemma miners_sell_accepted: "is_relevant_article (PDict miners_sell) ''Bitcoin'' = Inr True"
  unfolding miners_sell_def by code_simp

lemma returns_articles_ok: "returns_articles (ok_response (PDict [(''articles'', v)])) v"
  by (simp add: returns_articles_def ok_response_def is_error_status_def)

lemma first_match_of_evaluated_example:
  "fetch_latest_news no_render
     (ok_response (PDict [(''articles'',
        PList [PDict markets_today, PDict bitcoin_rallies, PDict miners_sell])])) ''Bitcoin''
     = Inr ''Bitcoin rallies: Up 5 percent''
   \<and> fetch_latest_news no_render
     (ok_response (PDict [(''articles'',
        PList [PDict markets_today, PDict miners_sell, PDict bitcoin_rallies])])) ''Bitcoin''
     = Inr ''Miners sell: Bitcoin miners sold''"
proof -
  have pre: "\<forall>p\<in>set [PDict markets_today]. is_relevant_article p ''Bitcoin'' = Inr False"
    by (simp add: markets_today_rejected)
  have net: "returns_articles
      (ok_response (PDict [(''articles'',
         PList [PDict markets_today, PDict bitcoin_rallies, PDict miners_sell])]))
      (PList ([PDict markets_today] @ PDict bitcoin_rallies # [PDict miners_sell]))"
    using returns_articles_ok
      [of "PList [PDict markets_today, PDict bitcoin_rallies, PDict miners_sell]"] by simp
  have net': "returns_articles
      (ok_response (PDict [(''articles'',
         PList [PDict markets_today, PDict miners_sell, PDict bitcoin_rallies])]))
      (PList ([PDict markets_today] @ PDict miners_sell # [] @ PDict bitcoin_rallies # []))"
    using returns_articles_ok
      [of "PList [PDict markets_today, PDict miners_sell, PDict bitcoin_rallies]"] by simp
  have t1: "article_text no_render bitcoin_rallies = ''Bitcoin rallies: Up 5 percent''"
    by (simp add: article_text_def bitcoin_rallies_def)
  have t2: "article_text no_render miners_sell = ''Miners sell: Bitcoin miners sold''"
    by (simp add: article_text_def miners_sell_def)
  note first = first_match_of_evaluated [OF pre bitcoin_rallies_accepted net, of no_render]
  from first have a: "fetch_latest_news no_render
     (ok_response (PDict [(''articles'',
        PList [PDict markets_today, PDict bitcoin_rallies, PDict miners_sell])])) ''Bitcoin''
     = Inr (article_text no_render bitcoin_rallies)" by (rule conjunct1)
  from first have "\<forall>net' kvs' mid post'.
               [PDict miners_sell] = mid @ PDict kvs' # post'
               \<and> is_relevant_article (PDict kvs') ''Bitcoin'' = Inr True
               \<and> returns_articles net' (PList ([PDict markets_today] @ PDict kvs' # mid @ PDict bitcoin_rallies # post'))
               \<longrightarrow> fetch_latest_news no_render net' ''Bitcoin'' = Inr (article_text no_render kvs')"
    by (rule conjunct2)
  then have b: "fetch_latest_news no_render
     (ok_response (PDict [(''articles'',
        PList [PDict markets_today, PDict miners_sell, PDict bitcoin_rallies])])) ''Bitcoin''
     = Inr (article_text no_render miners_sell)"
    using miners_sell_accepted net' by blast
  from a b show ?thesis by (simp only: t1 t2)
qed

text \<open>
  C2. Two batches with status 200 for the query Bitcoin. In the first an off-topic
  candidate with a null description stands before a candidate that the filter accepts;
  in the second a rejected candidate stands before one whose title holds the query and
  whose description is null. In both the first candidate that satisfies the
  title-match-or-double-mention rule is the second one, and \<^verbatim>\<open>fetch_latest_news\<close> does
  not return its text: \<^verbatim>\<open>.lower()\<close> on the null description raises \<^verbatim>\<open>AttributeError\<close>, which
  leaves the function.
\<close>

theorem fetch_latest_news_null_field_before_match_raises:
  "is_relevant_article (PDict bitcoin_rallies) ''Bitcoin'' = Inr True
   \<and> fetch_latest_news no_render
       (ok_response (PDict [(''articles'',
          PList [PDict off_topic_null_description, PDict bitcoin_rallies])])) ''Bitcoin''
     = Inl AttributeError
   \<and> str_contains (lower ''Bitcoin hits a new high'') (lower ''Bitcoin'')
   \<and> fetch_latest_news no_render
       (ok_response (PDict [(''articles'',
          PList [PDict markets_today, PDict null_description])])) ''Bitcoin''
     = Inl AttributeError"
proof -
  have a: "is_relevant_article (PDict off_topic_null_description) ''Bitcoin'' = Inl AttributeError"
    by (simp add: is_relevant_article_def off_topic_null_description_def)
  have b: "is_relevant_article (PDict null_description) ''Bitcoin'' = Inl AttributeError"
    by (simp add: is_relevant_article_def null_description_def)
  have c: "str_contains (lower ''Bitcoin hits a new high'') (lower ''Bitcoin'')"
    by code_simp
  show ?thesis
    using bitcoin_rallies_accepted c
    by (simp add: fetch_latest_news_def ok_response_def is_error_status_def a b
        markets_today_rejected)
qed

text \<open>
  The sentinels for candidates that the filter evaluates. When the provider returned a
  non-empty list of candidates and the filter returns \<^verbatim>\<open>False\<close> for each of them,
  \<^verbatim>\<open>fetch_latest_news\<close> returns the sentinel for no relevant article; when it returned
  the empty list, the sentinel for no article. The two texts differ.
\<close>

lemma sentinels_of_evaluated:
  "(returns_articles net (PList xs) \<and> xs \<noteq> []
      \<and> (\<forall>p\<in>set xs. is_relevant_article p q = Inr False)
      \<longrightarrow> fetch_latest_news rnd net q = Inr ''No sufficiently relevant articles found.'')
   \<and> (returns_articles net' (PList [])
      \<longrightarrow> fetch_latest_news rnd net' q = Inr ''No articles found.'')
   \<and> ''No sufficiently relevant articles found.'' \<noteq> ''No articles found.''"
  by (auto simp: fetch_returns_articles scan_articles_none)

lemma sentinels_of_evaluated_example:
  "fetch_latest_news no_render
     (ok_response (PDict [(''articles'', PList [PDict markets_today])])) ''Bitcoin''
     = Inr ''No sufficiently relevant articles found.''
   \<and> fetch_latest_news no_render (ok_response (PDict [(''articles'', PList [])])) ''Bitcoin''
     = Inr ''No articles found.''"
  using sentinels_of_evaluated
    [of "ok_response (PDict [(''articles'', PList [PDict markets_today])])"
        "[PDict markets_today]" "''Bitcoin''" no_render
        "ok_response (PDict [(''articles'', PList [])])"]
    returns_articles_ok [of "PList [PDict markets_today]"]
    returns_articles_ok [of "PList []"]
  by (simp add: markets_today_rejected)

text \<open>
  C8. A batch with status 200 whose one candidate is off topic and has a null
  description, for the query Bitcoin: the title does not hold the query and the content
  does not mention it, so no candidate passes the filter. \<^verbatim>\<open>fetch_latest_news\<close> does not
  return the sentinel: \<^verbatim>\<open>.lower()\<close> on the null description raises \<^verbatim>\<open>AttributeError\<close>,
  which leaves the function.
\<close>

theorem fetch_latest_news_null_field_no_sentinel:
  "fetch_latest_news no_render
     (ok_response (PDict [(''articles'', PList [PDict off_topic_null_description])])) ''Bitcoin''
   = Inl AttributeError
   \<and> \<not> str_contains (lower ''Markets today'') (lower ''Bitcoin'')
   \<and> str_count (lower ''Stocks rose'') (lower ''Bitcoin'') = 0"
proof -
  have a: "is_relevant_article (PDict off_topic_null_description) ''Bitcoin'' = Inl AttributeError"
    by (simp add: is_relevant_article_def off_topic_null_description_def)
  have c: "\<not> str_contains (lower ''Markets today'') (lower ''Bitcoin'')
           \<and> str_count (lower ''Stocks rose'') (lower ''Bitcoin'') = 0"
    by code_simp
  show ?thesis
    using c by (simp add: fetch_latest_news_def ok_response_def is_error_status_def a)
qed

text \<open>
  C4. The provider answers 200 with one candidate whose title holds the query and whose
  description is null: \<^verbatim>\<open>article.get('description', '')\<close> gives \<^verbatim>\<open>None\<close>, \<^verbatim>\<open>.lower()\<close> raises
  \<^verbatim>\<open>AttributeError\<close>, neither \<^verbatim>\<open>except\<close> clause catches it, and it leaves
  \<^verbatim>\<open>fetch_latest_news\<close>.
\<close>

theorem fetch_latest_news_null_field_raises:
  "fetch_latest_news no_render
     (ok_response (PDict [(''articles'', PList [PDict null_description])])) ''Bitcoin''
   = Inl AttributeError"
  by (simp add: fetch_latest_news_def ok_response_def is_error_status_def
      is_relevant_article_def null_description_def)




text \<open>
  What \<^verbatim>\<open>fetch_latest_news\<close> returns is the text of an accepted candidate, a sentinel or
  an error text.
\<close>

lemma relevant_str_raises: "is_relevant_article (PStr x) q = Inl AttributeError"
  by (simp add: is_relevant_article_def)

lemma fetch_result_kinds:
  assumes "fetch_latest_news rnd net q = Inr s"
  shows "news_kind rnd net q s"
proof (cases net)
  case (RequestFails e)
  with assms have "s = error_text q e" by (simp add: fetch_latest_news_def)
  then show ?thesis unfolding news_kind_def by blast
next
  case (Responds r)
  show ?thesis
  proof (cases "is_error_status (status_code r)")
    case True
    with assms Responds have "s = error_text q (http_error_text r)"
      by (simp add: fetch_latest_news_def)
    then show ?thesis unfolding news_kind_def by blast
  next
    case ok: False
    show ?thesis
    proof (cases "json_body r")
      case (Inl e)
      with assms Responds ok have "s = error_text q e" by (simp add: fetch_latest_news_def)
      then show ?thesis unfolding news_kind_def by blast
    next
      case (Inr data)
      have "\<exists>articles. py_get data ''articles'' PNone = Inr articles"
      proof (cases "py_get data ''articles'' PNone")
        case (Inl e)
        with assms Responds ok Inr show ?thesis by (simp add: fetch_latest_news_def)
      next
        case (Inr a)
        then show ?thesis by blast
      qed
      then obtain articles where g: "py_get data ''articles'' PNone = Inr articles" ..
      have ra: "returns_articles net articles"
        using Responds ok Inr g by (simp add: returns_articles_def)
      note f = fetch_returns_articles [OF ra, of rnd q]
      show ?thesis
      proof (cases "truthy articles")
        case False
        with f assms have "s = ''No articles found.''" by simp
        then show ?thesis unfolding news_kind_def by blast
      next
        case True
        with f assms have sc: "bind_result (py_iter articles) (\<lambda>xs. scan_articles rnd xs q) = Inr s"
          by simp
        show ?thesis
        proof (cases articles)
          case (PList xs)
          with sc have "scan_articles rnd xs q = Inr s" by simp
          from scan_articles_result [OF this]
          have "s = ''No sufficiently relevant articles found.'' \<or> passed_filter rnd net q s"
            unfolding passed_filter_def using ra PList by blast
          then show ?thesis unfolding news_kind_def by blast
        next
          case (PDict kvs)
          with True obtain kv rest where "kvs = kv # rest" by (cases kvs) auto
          with PDict sc show ?thesis by (simp add: relevant_str_raises)
        next
          case (PStr str)
          with True obtain c rest where "str = c # rest" by (cases str) auto
          with PStr sc show ?thesis by (simp add: relevant_str_raises)
        next
          case PNone
          with sc show ?thesis by simp
        next
          case (PBool b)
          with sc show ?thesis by simp
        next
          case (PNum x)
          with sc show ?thesis by simp
        qed
      qed
    qed
  qed
qed

text \<open>
  C6, as the claim states it: the provider has no article for either query. The flow
  inserts the sentinel into both news tables, and the sentinel is not the text of a
  candidate that passed the filter.
\<close>

theorem fetch_news_main_inserts_sentinel_counterexample:
  "fetch_news_main no_render api_no_articles fixed_clock [] =
     (Inr (),
      [(''btc_news'', [(''news'', PStr ''No articles found.''),
                       (''created_at'', PStr ''2024-05-01T00:00:00+00:00'')]),
       (''eth_news'', [(''news'', PStr ''No articles found.''),
                       (''created_at'', PStr ''2024-05-01T00:00:00+00:00'')])])
   \<and> \<not> passed_filter no_render (api_no_articles ''Bitcoin'') ''Bitcoin'' ''No articles found.''"
proof -
  have f: "fetch_latest_news no_render (api_no_articles q) q = Inr ''No articles found.''" for q
    by (simp add: fetch_latest_news_def api_no_articles_def ok_response_def is_error_status_def)
  have "\<not> passed_filter no_render (api_no_articles ''Bitcoin'') ''Bitcoin'' ''No articles found.''"
    by (auto simp: passed_filter_def returns_articles_def api_no_articles_def ok_response_def)
  then show ?thesis
    by (simp add: fetch_news_main_def f insert_news_def fixed_clock_def Let_def)
qed

lemma returned_news_rowI:
  "fetch_latest_news rnd (api query) query = Inr s \<Longrightarrow>
   (table = ''btc_news'' \<and> query = ''Bitcoin'') \<or> (table = ''eth_news'' \<and> query = ''Ethereum'') \<Longrightarrow>
   returned_news_row rnd api (table, [(''news'', PStr s), (''created_at'', PStr now)])"
  unfolding returned_news_row_def using fetch_result_kinds [of rnd "api query" query s] by auto

text \<open>
  C6, amended. In every run of the news script the rows handed to the store are the
  ones that were there before, followed by rows that each carry the string which
  \<^verbatim>\<open>fetch_latest_news\<close> returned for the query of the table, whatever that string is: the
  text of a candidate that passed the filter, one of the two sentinels or an error text.
  The three ways a run can go: the fetch for Bitcoin raises and nothing is inserted; it
  returns and the fetch for Ethereum raises, and the string for Bitcoin alone is
  inserted, into \<^verbatim>\<open>btc_news\<close>; both return and both strings are inserted, the second into
  \<^verbatim>\<open>eth_news\<close>.
\<close>

theorem fetch_news_main_inserts_returned:
  "(\<exists>new. snd (fetch_news_main rnd api clock calls) = calls @ new
          \<and> (\<forall>call\<in>set new. returned_news_row rnd api call))
   \<and> (fetch_latest_news rnd (api ''Bitcoin'') ''Bitcoin'' = Inl e
      \<longrightarrow> fetch_news_main rnd api clock calls = (Inl e, calls))
   \<and> (fetch_latest_news rnd (api ''Bitcoin'') ''Bitcoin'' = Inr btc_news
      \<and> fetch_latest_news rnd (api ''Ethereum'') ''Ethereum'' = Inl e
      \<longrightarrow> fetch_news_main rnd api clock calls =
            (Inl e,
             calls @ [(''btc_news'', [(''news'', PStr btc_news), (''created_at'', PStr (clock 0))])])
          \<and> news_kind rnd (api ''Bitcoin'') ''Bitcoin'' btc_news)
   \<and> (fetch_latest_news rnd (api ''Bitcoin'') ''Bitcoin'' = Inr btc_news
      \<and> fetch_latest_news rnd (api ''Ethereum'') ''Ethereum'' = Inr eth_news
      \<longrightarrow> fetch_news_main rnd api clock calls =
            (Inr (),
             calls @ [(''btc_news'', [(''news'', PStr btc_news), (''created_at'', PStr (clock 0))]),
                      (''eth_news'', [(''news'', PStr eth_news), (''created_at'', PStr (clock 1))])])
          \<and> news_kind rnd (api ''Bitcoin'') ''Bitcoin'' btc_news
          \<and> news_kind rnd (api ''Ethereum'') ''Ethereum'' eth_news)"
proof -
  let ?b = "fetch_latest_news rnd (api ''Bitcoin'') ''Bitcoin''"
  let ?e = "fetch_latest_news rnd (api ''Ethereum'') ''Ethereum''"
  have inv: "\<exists>new. snd (fetch_news_main rnd api clock calls) = calls @ new
          \<and> (\<forall>call\<in>set new. returned_news_row rnd api call)"
  proof (cases ?b)
    case (Inl x)
    then have "snd (fetch_news_main rnd api clock calls) = calls @ []"
      by (simp add: fetch_news_main_def Let_def)
    then show ?thesis by (intro exI [of _ "[]"]) simp
  next
    case b: (Inr s)
    let ?r1 = "(''btc_news'', [(''news'', PStr s), (''created_at'', PStr (clock 0))])"
    have k1: "returned_news_row rnd api ?r1"
      using b by (intro returned_news_rowI [of rnd api "''Bitcoin''"]) simp_all
    show ?thesis
    proof (cases ?e)
      case (Inl x)
      with b have "snd (fetch_news_main rnd api clock calls) = calls @ [?r1]"
        by (simp add: fetch_news_main_def insert_news_def Let_def)
      with k1 show ?thesis by (intro exI [of _ "[?r1]"]) simp
    next
      case e: (Inr s')
      let ?r2 = "(''eth_news'', [(''news'', PStr s'), (''created_at'', PStr (clock 1))])"
      have k2: "returned_news_row rnd api ?r2"
        using e by (intro returned_news_rowI [of rnd api "''Ethereum''"]) simp_all
      from b e have "snd (fetch_news_main rnd api clock calls) = calls @ [?r1, ?r2]"
        by (simp add: fetch_news_main_def insert_news_def Let_def)
      with k1 k2 show ?thesis by (intro exI [of _ "[?r1, ?r2]"]) simp
    qed
  qed
  have c1: "?b = Inl e \<longrightarrow> fetch_news_main rnd api clock calls = (Inl e, calls)"
    by (simp add: fetch_news_main_def Let_def)
  have c2: "?b = Inr btc_news \<and> ?e = Inl e
      \<longrightarrow> fetch_news_main rnd api clock calls =
            (Inl e,
             calls @ [(''btc_news'', [(''news'', PStr btc_news), (''created_at'', PStr (clock 0))])])
          \<and> news_kind rnd (api ''Bitcoin'') ''Bitcoin'' btc_news"
    using fetch_result_kinds [of rnd "api ''Bitcoin''" "''Bitcoin''" btc_news]
    by (simp add: fetch_news_main_def insert_news_def Let_def)
  have c3: "?b = Inr btc_news \<and> ?e = Inr eth_news
      \<longrightarrow> fetch_news_main rnd api clock calls =
            (Inr (),
             calls @ [(''btc_news'', [(''news'', PStr btc_news), (''created_at'', PStr (clock 0))]),
                      (''eth_news'', [(''news'', PStr eth_news), (''created_at'', PStr (clock 1))])])
          \<and> news_kind rnd (api ''Bitcoin'') ''Bitcoin'' btc_news
          \<and> news_kind rnd (api ''Ethereum'') ''Ethereum'' eth_news"
    using fetch_result_kinds [of rnd "api ''Bitcoin''" "''Bitcoin''" btc_news]
      fetch_result_kinds [of rnd "api ''Ethereum''" "''Ethereum''" eth_news]
    by (simp add: fetch_news_main_def insert_news_def Let_def)
  from inv c1 c2 c3 show ?thesis by blast
qed

theorem fetch_news_main_inserts_returned_witness:
  "fetch_news_main no_render api_two_articles fixed_clock [] =
     (Inr (),
      [(''btc_news'', [(''news'', PStr ''Bitcoin rallies: Up 5 percent''),
                       (''created_at'', PStr ''2024-05-01T00:00:00+00:00'')]),
       (''eth_news'', [(''news'', PStr ''No sufficiently relevant articles found.''),
                       (''created_at'', PStr ''2024-05-01T00:00:00+00:00'')])])
   \<and> fetch_news_main no_render api_ethereum_malformed fixed_clock [] =
     (Inl AttributeError,
      [(''btc_news'', [(''news'', PStr ''Bitcoin rallies: Up 5 percent''),
                       (''created_at'', PStr ''2024-05-01T00:00:00+00:00'')])])"
proof -
  have b: "fetch_latest_news no_render (api_two_articles ''Bitcoin'') ''Bitcoin''
             = Inr ''Bitcoin rallies: Up 5 percent''"
    by code_simp
  have e: "fetch_latest_news no_render (api_two_articles ''Ethereum'') ''Ethereum''
             = Inr ''No sufficiently relevant articles found.''"
    by code_simp
  have b': "fetch_latest_news no_render (api_ethereum_malformed ''Bitcoin'') ''Bitcoin''
             = Inr ''Bitcoin rallies: Up 5 percent''"
    by code_simp
  have e': "fetch_latest_news no_render (api_ethereum_malformed ''Ethereum'') ''Ethereum''
             = Inl AttributeError"
    by code_simp
  show ?thesis
    using fetch_news_main_inserts_returned
        [of no_render api_two_articles fixed_clock "[]" AttributeError
            "''Bitcoin rallies: Up 5 percent''" "''No sufficiently relevant articles found.''"]
      fetch_news_main_inserts_returned
        [of no_render api_ethereum_malformed fixed_clock "[]" AttributeError
            "''Bitcoin rallies: Up 5 percent''" "''No sufficiently relevant articles found.''"]
      b e b' e'
    by (simp add: fixed_clock_def)
qed

section \<open>The digest: reading with retries\<close>

lemma body_raises:
  "store_select env (store_reads w) t c = SelectRaises e \<Longrightarrow>
   fetch_latest_entry_body env t c w =
     (Inl (StoreException e),
      w\<lparr>store_reads := store_reads w + 1, logged := logged w @ [read_error t e]\<rparr>)"
  by (simp add: fetch_latest_entry_body_def log_line_def read_error_def)

lemma body_row:
  "store_select env (store_reads w) t c = SelectReturns (row # rows) \<Longrightarrow>
   fetch_latest_entry_body env t c w = (Inr row, w\<lparr>store_reads := store_reads w + 1\<rparr>)"
  by (simp add: fetch_latest_entry_body_def)

lemma body_empty:
  "store_select env (store_reads w) t c = SelectReturns [] \<Longrightarrow>
   fetch_latest_entry_body env t c w =
     (Inr (PDict []),
      w\<lparr>store_reads := store_reads w + 1,
        logged := logged w @ [(WARNING, ''No data found in table '' @ t @ ''.'')]\<rparr>)"
  by (simp add: fetch_latest_entry_body_def log_line_def)

text \<open>The three ways an attempt of the retry loop ends.\<close>

lemma retrying_returns:
  "fn w = (Inr v, w1) \<Longrightarrow> retrying n secs fn k w = (Inr v, w1)"
  by (subst retrying.simps) simp

lemma retrying_stops:
  "fn w = (Inl e, w1) \<Longrightarrow> n \<le> k \<Longrightarrow> retrying n secs fn k w = (Inl (RetryError e), w1)"
  by (subst retrying.simps) simp

lemma retrying_again:
  "fn w = (Inl e, w1) \<Longrightarrow> k < n \<Longrightarrow> k' = k + 1 \<Longrightarrow>
   retrying n secs fn k w = retrying n secs fn k' (w1\<lparr>sleeps := sleeps w1 @ [secs]\<rparr>)"
  by (subst retrying.simps) simp

lemma entry_at_first_attempt:
  "store_select env (store_reads w) t c = SelectReturns (row # rows) \<Longrightarrow>
   fetch_latest_entry env t c w = (Inr row, w\<lparr>store_reads := store_reads w + 1\<rparr>)"
  unfolding fetch_latest_entry_def
  by (rule retrying_returns) (rule body_row)

lemma empty_at_first_attempt:
  "store_select env (store_reads w) t c = SelectReturns [] \<Longrightarrow>
   fetch_latest_entry env t c w =
     (Inr (PDict []),
      w\<lparr>store_reads := store_reads w + 1,
        logged := logged w @ [(WARNING, ''No data found in table '' @ t @ ''.'')]\<rparr>)"
  unfolding fetch_latest_entry_def
  by (rule retrying_returns) (rule body_empty)

lemma entry_at_third_attempt:
  assumes "store_select env (store_reads w) t c = SelectRaises e1"
    and "store_select env (store_reads w + 1) t c = SelectRaises e2"
    and "store_select env (store_reads w + 2) t c = SelectReturns (row # rows)"
  shows "fetch_latest_entry env t c w =
     (Inr row, w\<lparr>store_reads := store_reads w + 3, sleeps := sleeps w @ [5, 5],
                logged := logged w @ [read_error t e1, read_error t e2]\<rparr>)"
proof -
  let ?f = "fetch_latest_entry_body env t c"
  let ?w1 = "w\<lparr>store_reads := store_reads w + 1, logged := logged w @ [read_error t e1]\<rparr>"
  let ?w1s = "?w1\<lparr>sleeps := sleeps ?w1 @ [5]\<rparr>"
  let ?w2 = "?w1s\<lparr>store_reads := store_reads ?w1s + 1, logged := logged ?w1s @ [read_error t e2]\<rparr>"
  let ?w2s = "?w2\<lparr>sleeps := sleeps ?w2 @ [5]\<rparr>"
  have 1: "?f w = (Inl (StoreException e1), ?w1)"
    using assms(1) by (rule body_raises)
  have 2: "?f ?w1s = (Inl (StoreException e2), ?w2)"
    using assms(2) by (intro body_raises) simp
  have 3: "?f ?w2s = (Inr row, ?w2s\<lparr>store_reads := store_reads ?w2s + 1\<rparr>)"
    using assms(3) by (intro body_row) (simp add: add.commute)
  have "retrying 3 5 ?f 1 w = retrying 3 5 ?f 2 ?w1s"
    by (rule retrying_again [where fn = ?f, OF 1]) simp_all
  also have "\<dots> = retrying 3 5 ?f 3 ?w2s"
    by (rule retrying_again [where fn = ?f, OF 2]) simp_all
  also have "\<dots> = (Inr row, ?w2s\<lparr>store_reads := store_reads ?w2s + 1\<rparr>)"
    using retrying_returns [where fn = ?f, OF 3] .
  finally show ?thesis
    unfolding fetch_latest_entry_def by simp
qed

lemma retry_error_after_three_failures:
  assumes "store_select env (store_reads w) t c = SelectRaises e1"
    and "store_select env (store_reads w + 1) t c = SelectRaises e2"
    and "store_select env (store_reads w + 2) t c = SelectRaises e3"
  shows "fetch_latest_entry env t c w =
     (Inl (RetryError (StoreException e3)),
      w\<lparr>store_reads := store_reads w + 3, sleeps := sleeps w @ [5, 5],
        logged := logged w @ [read_error t e1, read_error t e2, read_error t e3]\<rparr>)"
proof -
  let ?f = "fetch_latest_entry_body env t c"
  let ?w1 = "w\<lparr>store_reads := store_reads w + 1, logged := logged w @ [read_error t e1]\<rparr>"
  let ?w1s = "?w1\<lparr>sleeps := sleeps ?w1 @ [5]\<rparr>"
  let ?w2 = "?w1s\<lparr>store_reads := store_reads ?w1s + 1, logged := logged ?w1s @ [read_error t e2]\<rparr>"
  let ?w2s = "?w2\<lparr>sleeps := sleeps ?w2 @ [5]\<rparr>"
  let ?w3 = "?w2s\<lparr>store_reads := store_reads ?w2s + 1, logged := logged ?w2s @ [read_error t e3]\<rparr>"
  have 1: "?f w = (Inl (StoreException e1), ?w1)"
    using assms(1) by (rule body_raises)
  have 2: "?f ?w1s = (Inl (StoreException e2), ?w2)"
    using assms(2) by (intro body_raises) simp
  have 3: "?f ?w2s = (Inl (StoreException e3), ?w3)"
    using assms(3) by (intro body_raises) (simp add: add.commute)
  have "retrying 3 5 ?f 1 w = retrying 3 5 ?f 2 ?w1s"
    by (rule retrying_again [where fn = ?f, OF 1]) simp_all
  also have "\<dots> = retrying 3 5 ?f 3 ?w2s"
    by (rule retrying_again [where fn = ?f, OF 2]) simp_all
  also have "\<dots> = (Inl (RetryError (StoreException e3)), ?w3)"
    by (rule retrying_stops [where fn = ?f, OF 3]) simp
  finally show ?thesis
    unfolding fetch_latest_entry_def by simp
qed

text \<open>Each attempt sends one read; from attempt \<open>k\<close> on there are at most \<open>n - k + 1\<close>.\<close>

lemma body_reads: "store_reads (snd (fetch_latest_entry_body env t c w)) = store_reads w + 1"
  by (simp add: fetch_latest_entry_body_def log_line_def Let_def
      split: select_outcome.splits list.splits)

lemma retrying_reads:
  "(\<And>w. store_reads (snd (fn w)) = store_reads w + 1) \<Longrightarrow> k \<le> n \<Longrightarrow>
   store_reads (snd (retrying n secs fn k w)) \<le> store_reads w + (n - k) + 1"
proof (induction n secs fn k w rule: retrying.induct)
  case (1 n secs fn k w)
  obtain r w1 where fw: "fn w = (r, w1)" by (cases "fn w")
  have sr: "store_reads w1 = store_reads w + 1" using 1(2)[of w] fw by simp
  show ?case
  proof (cases r)
    case (Inr v)
    then show ?thesis using fw sr by (simp add: retrying_returns)
  next
    case (Inl e)
    show ?thesis
    proof (cases "n \<le> k")
      case True
      then show ?thesis using fw Inl sr by (simp add: retrying_stops)
    next
      case False
      then have lt: "k < n" by simp
      have "store_reads (snd (retrying n secs fn (k + 1) (w1\<lparr>sleeps := sleeps w1 @ [secs]\<rparr>)))
              \<le> store_reads (w1\<lparr>sleeps := sleeps w1 @ [secs]\<rparr>) + (n - (k + 1)) + 1"
        using 1(1)[OF fw[symmetric] Inl False] 1(2) lt by simp
      then show ?thesis using fw Inl lt sr
        by (simp add: retrying_again [where fn = fn and k' = "k + 1"])
    qed
  qed
qed

lemma at_most_three_reads: "store_reads (snd (fetch_latest_entry env t c w)) \<le> store_reads w + 3"
  unfolding fetch_latest_entry_def
  using retrying_reads [of "fetch_latest_entry_body env t c" 1 3 5 w]
  by (simp add: body_reads)

text \<open>
  C3, as the claim states it: every read of the store raises the same exception. After
  three attempts the caller receives tenacity's \<^verbatim>\<open>RetryError\<close> that wraps the exception of
  the third attempt, not that exception.
\<close>

theorem fetch_latest_entry_retry_error_counterexample:
  "fst (fetch_latest_entry store_down ''btc_prices'' ''prices'' fresh_world)
     = Inl (RetryError (StoreException ''connection reset''))
   \<and> fst (fetch_latest_entry store_down ''btc_prices'' ''prices'' fresh_world)
     \<noteq> Inl (StoreException ''connection reset'')"
  using retry_error_after_three_failures
    [of store_down fresh_world "''btc_prices''" "''prices''"
        "''connection reset''" "''connection reset''" "''connection reset''"]
  by (simp add: store_down_def)

text \<open>
  C3, amended. \<^verbatim>\<open>fetch_latest_entry\<close> reads the store at most 3 times. When the first two
  reads raise and the third returns a row, that row is returned, after exactly 3 reads
  with a sleep of 5 seconds before the second and before the third. When all three
  reads raise, the caller gets \<^verbatim>\<open>RetryError\<close> wrapping the third exception, after exactly
  3 reads and the same two sleeps. Each failed read is logged as an error.
\<close>

theorem fetch_latest_entry_three_attempts:
  "(store_select env (store_reads w) t c = SelectRaises e1
      \<and> store_select env (store_reads w + 1) t c = SelectRaises e2
      \<and> store_select env (store_reads w + 2) t c = SelectReturns (row # rows)
    \<longrightarrow> fetch_latest_entry env t c w =
          (Inr row, w\<lparr>store_reads := store_reads w + 3, sleeps := sleeps w @ [5, 5],
                     logged := logged w @ [read_error t e1, read_error t e2]\<rparr>))
   \<and> (store_select env (store_reads w) t c = SelectRaises e1
      \<and> store_select env (store_reads w + 1) t c = SelectRaises e2
      \<and> store_select env (store_reads w + 2) t c = SelectRaises e3
    \<longrightarrow> fetch_latest_entry env t c w =
          (Inl (RetryError (StoreException e3)),
           w\<lparr>store_reads := store_reads w + 3, sleeps := sleeps w @ [5, 5],
             logged := logged w @ [read_error t e1, read_error t e2, read_error t e3]\<rparr>))
   \<and> store_reads (snd (fetch_latest_entry env t c w)) \<le> store_reads w + 3"
  using entry_at_third_attempt [of env w t c e1 e2 row rows]
    retry_error_after_three_failures [of env w t c e1 e2 e3]
    at_most_three_reads [of env t c w]
  by blast

theorem fetch_latest_entry_three_attempts_witness:
  "fetch_latest_entry store_up_at_third ''btc_prices'' ''prices'' fresh_world =
     (Inr (PDict [(''prices'', PNum 61234.5)]),
      \<lparr>store_reads = 3, sleeps = [5, 5],
       logged = [read_error ''btc_prices'' ''connection reset'',
                 read_error ''btc_prices'' ''connection reset''],
       prompts = [], outbox = []\<rparr>)
   \<and> fetch_latest_entry store_down ''btc_prices'' ''prices'' fresh_world =
     (Inl (RetryError (StoreException ''connection reset'')),
      \<lparr>store_reads = 3, sleeps = [5, 5],
       logged = [read_error ''btc_prices'' ''connection reset'',
                 read_error ''btc_prices'' ''connection reset'',
                 read_error ''btc_prices'' ''connection reset''],
       prompts = [], outbox = []\<rparr>)"
  using fetch_latest_entry_three_attempts
      [of store_up_at_third fresh_world "''btc_prices''" "''prices''"
          "''connection reset''" "''connection reset''"
          "PDict [(''prices'', PNum 61234.5)]" "[]" "''connection reset''"]
    fetch_latest_entry_three_attempts
      [of store_down fresh_world "''btc_prices''" "''prices''"
          "''connection reset''" "''connection reset''"
          "PDict [(''prices'', PNum 61234.5)]" "[]" "''connection reset''"]
  by (simp add: store_up_at_third_def store_down_def fresh_world_def)

section \<open>The digest: incomplete data\<close>

text \<open>Reading an entry sends no mail and no prompt.\<close>

lemma body_keeps:
  "outbox (snd (fetch_latest_entry_body env t c w)) = outbox w
   \<and> prompts (snd (fetch_latest_entry_body env t c w)) = prompts w"
  by (simp add: fetch_latest_entry_body_def log_line_def Let_def
      split: select_outcome.splits list.splits)

lemma retrying_keeps:
  "(\<And>w. outbox (snd (fn w)) = outbox w \<and> prompts (snd (fn w)) = prompts w) \<Longrightarrow>
   outbox (snd (retrying n secs fn k w)) = outbox w
   \<and> prompts (snd (retrying n secs fn k w)) = prompts w"
proof (induction n secs fn k w rule: retrying.induct)
  case (1 n secs fn k w)
  obtain r w1 where fw: "fn w = (r, w1)" by (cases "fn w")
  have k1: "outbox w1 = outbox w \<and> prompts w1 = prompts w" using 1(2)[of w] fw by simp
  show ?case
  proof (cases r)
    case (Inr v)
    then show ?thesis using fw k1 by (simp add: retrying_returns)
  next
    case (Inl e)
    show ?thesis
    proof (cases "n \<le> k")
      case True
      then show ?thesis using fw Inl k1 by (simp add: retrying_stops)
    next
      case False
      then have lt: "k < n" by simp
      have "outbox (snd (retrying n secs fn (k + 1) (w1\<lparr>sleeps := sleeps w1 @ [secs]\<rparr>)))
              = outbox (w1\<lparr>sleeps := sleeps w1 @ [secs]\<rparr>)
            \<and> prompts (snd (retrying n secs fn (k + 1) (w1\<lparr>sleeps := sleeps w1 @ [secs]\<rparr>)))
              = prompts (w1\<lparr>sleeps := sleeps w1 @ [secs]\<rparr>)"
        using 1(1)[OF fw[symmetric] Inl False] 1(2) by simp
      then show ?thesis using fw Inl lt k1
        by (simp add: retrying_again [where fn = fn and k' = "k + 1"])
    qed
  qed
qed

lemma fetch_keeps:
  "fetch_latest_entry env t c w = (r, w') \<Longrightarrow> outbox w' = outbox w \<and> prompts w' = prompts w"
  unfolding fetch_latest_entry_def
  using retrying_keeps [of "fetch_latest_entry_body env t c" 3 5 1 w]
  by (simp add: body_keeps)

lemma main_aborts:
  assumes r1: "fetch_latest_entry env ''btc_prices'' ''prices'' w0 = (Inr e1, w1)"
    and r2: "fetch_latest_entry env ''btc_news'' ''news'' w1 = (Inr e2, w2)"
    and r3: "fetch_latest_entry env ''eth_prices'' ''prices'' w2 = (Inr e3, w3)"
    and r4: "fetch_latest_entry env ''eth_news'' ''news'' w3 = (Inr e4, w4)"
    and empty: "\<not> truthy e1 \<or> \<not> truthy e2 \<or> \<not> truthy e3 \<or> \<not> truthy e4"
  shows "send_summary_main rnd env w0 =
           (Inr (), w4\<lparr>logged := logged w4 @
              [(ERROR, ''Incomplete '' @ (if \<not> truthy e1 \<or> \<not> truthy e2 then ''BTC'' else ''ETH'')
                       @ '' data. Aborting email composition.'')]\<rparr>)
         \<and> outbox w4 = outbox w0 \<and> prompts w4 = prompts w0"
proof -
  have k: "outbox w4 = outbox w0 \<and> prompts w4 = prompts w0"
    using fetch_keeps [OF r1] fetch_keeps [OF r2] fetch_keeps [OF r3] fetch_keeps [OF r4] by simp
  have "send_summary_main rnd env w0 =
           (Inr (), w4\<lparr>logged := logged w4 @
              [(ERROR, ''Incomplete '' @ (if \<not> truthy e1 \<or> \<not> truthy e2 then ''BTC'' else ''ETH'')
                       @ '' data. Aborting email composition.'')]\<rparr>)"
    using empty by (auto simp: send_summary_main_def then_do_def r1 r2 r3 r4 log_line_def)
  with k show ?thesis by simp
qed

text \<open>
  A read that raises ends the run there; a message reaches the mail server only after
  four reads that returned entries which all count as true.
\<close>

lemma main_read_fails:
  "fetch_latest_entry env ''btc_prices'' ''prices'' w0 = (Inl e, w1) \<Longrightarrow>
   send_summary_main rnd env w0 = (Inl e, w1)"
  "fetch_latest_entry env ''btc_prices'' ''prices'' w0 = (Inr e1, w1) \<Longrightarrow>
   fetch_latest_entry env ''btc_news'' ''news'' w1 = (Inl e, w2) \<Longrightarrow>
   send_summary_main rnd env w0 = (Inl e, w2)"
  "fetch_latest_entry env ''btc_prices'' ''prices'' w0 = (Inr e1, w1) \<Longrightarrow>
   fetch_latest_entry env ''btc_news'' ''news'' w1 = (Inr e2, w2) \<Longrightarrow>
   fetch_latest_entry env ''eth_prices'' ''prices'' w2 = (Inl e, w3) \<Longrightarrow>
   send_summary_main rnd env w0 = (Inl e, w3)"
  "fetch_latest_entry env ''btc_prices'' ''prices'' w0 = (Inr e1, w1) \<Longrightarrow>
   fetch_latest_entry env ''btc_news'' ''news'' w1 = (Inr e2, w2) \<Longrightarrow>
   fetch_latest_entry env ''eth_prices'' ''prices'' w2 = (Inr e3, w3) \<Longrightarrow>
   fetch_latest_entry env ''eth_news'' ''news'' w3 = (Inl e, w4) \<Longrightarrow>
   send_summary_main rnd env w0 = (Inl e, w4)"
  by (simp_all add: send_summary_main_def then_do_def)

lemma mail_only_when_complete:
  assumes sent: "outbox (snd (send_summary_main rnd env w0)) \<noteq> outbox w0"
  shows "\<exists>e1 w1 e2 w2 e3 w3 e4 w4.
           fetch_latest_entry env ''btc_prices'' ''prices'' w0 = (Inr e1, w1)
           \<and> fetch_latest_entry env ''btc_news'' ''news'' w1 = (Inr e2, w2)
           \<and> fetch_latest_entry env ''eth_prices'' ''prices'' w2 = (Inr e3, w3)
           \<and> fetch_latest_entry env ''eth_news'' ''news'' w3 = (Inr e4, w4)
           \<and> truthy e1 \<and> truthy e2 \<and> truthy e3 \<and> truthy e4"
proof -
  obtain x1 w1 where r1: "fetch_latest_entry env ''btc_prices'' ''prices'' w0 = (x1, w1)"
    by (cases "fetch_latest_entry env ''btc_prices'' ''prices'' w0")
  obtain x2 w2 where r2: "fetch_latest_entry env ''btc_news'' ''news'' w1 = (x2, w2)"
    by (cases "fetch_latest_entry env ''btc_news'' ''news'' w1")
  obtain x3 w3 where r3: "fetch_latest_entry env ''eth_prices'' ''prices'' w2 = (x3, w3)"
    by (cases "fetch_latest_entry env ''eth_prices'' ''prices'' w2")
  obtain x4 w4 where r4: "fetch_latest_entry env ''eth_news'' ''news'' w3 = (x4, w4)"
    by (cases "fetch_latest_entry env ''eth_news'' ''news'' w3")
  note k1 = fetch_keeps [OF r1] and k2 = fetch_keeps [OF r2]
    and k3 = fetch_keeps [OF r3] and k4 = fetch_keeps [OF r4]
  obtain e1 where x1: "x1 = Inr e1"
    using sent main_read_fails(1) [of env w0 _ w1 rnd] r1 k1 by (cases x1) auto
  obtain e2 where x2: "x2 = Inr e2"
    using sent main_read_fails(2) [of env w0 e1 w1 _ w2 rnd] r1 r2 x1 k1 k2 by (cases x2) auto
  obtain e3 where x3: "x3 = Inr e3"
    using sent main_read_fails(3) [of env w0 e1 w1 e2 w2 _ w3 rnd] r1 r2 r3 x1 x2 k1 k2 k3
    by (cases x3) auto
  obtain e4 where x4: "x4 = Inr e4"
    using sent main_read_fails(4) [of env w0 e1 w1 e2 w2 e3 w3 _ w4 rnd] r1 r2 r3 r4 x1 x2 x3
      k1 k2 k3 k4
    by (cases x4) auto
  have "truthy e1 \<and> truthy e2 \<and> truthy e3 \<and> truthy e4"
  proof (rule ccontr)
    assume "\<not> (truthy e1 \<and> truthy e2 \<and> truthy e3 \<and> truthy e4)"
    then have "\<not> truthy e1 \<or> \<not> truthy e2 \<or> \<not> truthy e3 \<or> \<not> truthy e4" by blast
    from main_aborts [OF r1[unfolded x1] r2[unfolded x2] r3[unfolded x3] r4[unfolded x4] this, of rnd]
    have "outbox (snd (send_summary_main rnd env w0)) = outbox w0" by simp
    with sent show False by simp
  qed
  with r1 r2 r3 r4 x1 x2 x3 x4 show ?thesis by blast
qed

text \<open>
  C7. A read that finds no row returns the empty dict at once: one read, no sleep, a
  warning that names the table. And when the four reads of a run return and one of the
  entries is empty (or otherwise false), the run ends normally with an error line that
  names the asset, BTC when one of its two entries is empty and ETH otherwise; no prompt
  has been sent to the text generator and no message to the mail server. In every run,
  also one that a failing read ends, a message is handed to the mail server only when
  all four entries were read and none of them is empty.
\<close>

theorem digest_aborts_on_empty:
  "(store_select env (store_reads w) t c = SelectReturns []
    \<longrightarrow> fetch_latest_entry env t c w =
          (Inr (PDict []),
           w\<lparr>store_reads := store_reads w + 1,
             logged := logged w @ [(WARNING, ''No data found in table '' @ t @ ''.'')]\<rparr>))
   \<and> (fetch_latest_entry env ''btc_prices'' ''prices'' w0 = (Inr e1, w1)
      \<and> fetch_latest_entry env ''btc_news'' ''news'' w1 = (Inr e2, w2)
      \<and> fetch_latest_entry env ''eth_prices'' ''prices'' w2 = (Inr e3, w3)
      \<and> fetch_latest_entry env ''eth_news'' ''news'' w3 = (Inr e4, w4)
      \<and> (\<not> truthy e1 \<or> \<not> truthy e2 \<or> \<not> truthy e3 \<or> \<not> truthy e4)
    \<longrightarrow> send_summary_main rnd env w0 =
           (Inr (), w4\<lparr>logged := logged w4 @
              [(ERROR, ''Incomplete '' @ (if \<not> truthy e1 \<or> \<not> truthy e2 then ''BTC'' else ''ETH'')
                       @ '' data. Aborting email composition.'')]\<rparr>)
         \<and> outbox w4 = outbox w0 \<and> prompts w4 = prompts w0)
   \<and> (outbox (snd (send_summary_main rnd env w0)) \<noteq> outbox w0
    \<longrightarrow> (\<exists>a1 v1 a2 v2 a3 v3 a4 v4.
           fetch_latest_entry env ''btc_prices'' ''prices'' w0 = (Inr a1, v1)
           \<and> fetch_latest_entry env ''btc_news'' ''news'' v1 = (Inr a2, v2)
           \<and> fetch_latest_entry env ''eth_prices'' ''prices'' v2 = (Inr a3, v3)
           \<and> fetch_latest_entry env ''eth_news'' ''news'' v3 = (Inr a4, v4)
           \<and> truthy a1 \<and> truthy a2 \<and> truthy a3 \<and> truthy a4))"
proof -
  have "outbox (snd (send_summary_main rnd env w0)) \<noteq> outbox w0
    \<longrightarrow> (\<exists>a1 v1 a2 v2 a3 v3 a4 v4.
           fetch_latest_entry env ''btc_prices'' ''prices'' w0 = (Inr a1, v1)
           \<and> fetch_latest_entry env ''btc_news'' ''news'' v1 = (Inr a2, v2)
           \<and> fetch_latest_entry env ''eth_prices'' ''prices'' v2 = (Inr a3, v3)
           \<and> fetch_latest_entry env ''eth_news'' ''news'' v3 = (Inr a4, v4)
           \<and> truthy a1 \<and> truthy a2 \<and> truthy a3 \<and> truthy a4)"
    using mail_only_when_complete [of rnd env w0] by blast
  then show ?thesis
    using empty_at_first_attempt [of env w t c]
      main_aborts [of env w0 e1 w1 e2 w2 e3 w3 e4 w4 rnd]
    by blast
qed

theorem digest_aborts_on_empty_witness:
  "fetch_latest_entry store_without_eth_news ''eth_news'' ''news'' fresh_world =
     (Inr (PDict []),
      \<lparr>store_reads = 1, sleeps = [],
       logged = [(WARNING, ''No data found in table eth_news.'')],
       prompts = [], outbox = []\<rparr>)
   \<and> send_summary_main no_render store_without_eth_news fresh_world =
     (Inr (),
      \<lparr>store_reads = 4, sleeps = [],
       logged = [(WARNING, ''No data found in table eth_news.''),
                 (ERROR, ''Incomplete ETH data. Aborting email composition.'')],
       prompts = [], outbox = []\<rparr>)"
proof -
  let ?env = store_without_eth_news
  let ?w1 = "fresh_world\<lparr>store_reads := 1\<rparr>"
  let ?w2 = "fresh_world\<lparr>store_reads := 2\<rparr>"
  let ?w3 = "fresh_world\<lparr>store_reads := 3\<rparr>"
  let ?w4 = "fresh_world\<lparr>store_reads := 4,
               logged := [(WARNING, ''No data found in table eth_news.'')]\<rparr>"
  have r1: "fetch_latest_entry ?env ''btc_prices'' ''prices'' fresh_world
              = (Inr (PDict [(''prices'', PStr ''up'')]), ?w1)"
    using entry_at_first_attempt
      [of ?env fresh_world "''btc_prices''" "''prices''" "PDict [(''prices'', PStr ''up'')]" "[]"]
    by (simp add: store_without_eth_news_def fresh_world_def)
  have r2: "fetch_latest_entry ?env ''btc_news'' ''news'' ?w1
              = (Inr (PDict [(''news'', PStr ''up'')]), ?w2)"
    using entry_at_first_attempt
      [of ?env ?w1 "''btc_news''" "''news''" "PDict [(''news'', PStr ''up'')]" "[]"]
    by (simp add: store_without_eth_news_def fresh_world_def)
  have r3: "fetch_latest_entry ?env ''eth_prices'' ''prices'' ?w2
              = (Inr (PDict [(''prices'', PStr ''up'')]), ?w3)"
    using entry_at_first_attempt
      [of ?env ?w2 "''eth_prices''" "''prices''" "PDict [(''prices'', PStr ''up'')]" "[]"]
    by (simp add: store_without_eth_news_def fresh_world_def)
  have r4: "fetch_latest_entry ?env ''eth_news'' ''news'' ?w3 = (Inr (PDict []), ?w4)"
    using empty_at_first_attempt [of ?env ?w3 "''eth_news''" "''news''"]
    by (simp add: store_without_eth_news_def fresh_world_def)
  have h: "store_select ?env (store_reads fresh_world) ''eth_news'' ''news'' = SelectReturns []"
    by (simp add: store_without_eth_news_def)
  note claim = digest_aborts_on_empty
    [of ?env fresh_world "''eth_news''" "''news''" fresh_world
        "PDict [(''prices'', PStr ''up'')]" ?w1 "PDict [(''news'', PStr ''up'')]" ?w2
        "PDict [(''prices'', PStr ''up'')]" ?w3 "PDict []" ?w4 no_render]
  from claim h have a: "fetch_latest_entry ?env ''eth_news'' ''news'' fresh_world =
          (Inr (PDict []),
           fresh_world\<lparr>store_reads := store_reads fresh_world + 1,
             logged := logged fresh_world @ [(WARNING, ''No data found in table '' @ ''eth_news'' @ ''.'')]\<rparr>)"
    by blast
  from claim r1 r2 r3 r4 have b: "send_summary_main no_render ?env fresh_world =
           (Inr (), ?w4\<lparr>logged := logged ?w4 @
              [(ERROR, ''Incomplete '' @ (if \<not> truthy (PDict [(''prices'', PStr ''up'')])
                         \<or> \<not> truthy (PDict [(''news'', PStr ''up'')]) then ''BTC'' else ''ETH'')
                       @ '' data. Aborting email composition.'')]\<rparr>)"
    by simp
  from a b show ?thesis by (simp add: fresh_world_def)
qed

text \<open>
  With a row in each of the four tables the run goes on to the summaries and the mail:
  two prompts are sent and one message is delivered.
\<close>

lemma digest_sent_when_complete:
  "outbox (snd (send_summary_main no_render store_complete fresh_world)) =
     [(''Crypto Update - 2024-05-01'', compose_email ''Prices are up.'' ''Prices are up.'')]
   \<and> length (prompts (snd (send_summary_main no_render store_complete fresh_world))) = 2"
proof -
  let ?env = store_complete
  have r: "fetch_latest_entry ?env t c w = (Inr (PDict [(c, PStr ''up'')]), w\<lparr>store_reads := store_reads w + 1\<rparr>)"
    for t c w
    using entry_at_first_attempt [of ?env w t c "PDict [(c, PStr ''up'')]" "[]"]
    by (simp add: store_complete_def)
  have s: "strip ''Prices are up.'' = ''Prices are up.''"
    by code_simp
  have c: "chat_completion ?env p = ChatReplies ''Prices are up.''" for p
    by (simp add: store_complete_def)
  have m: "smtp ?env subject body = SmtpDelivers" for subject body
    by (simp add: store_complete_def)
  have d: "utc_date ?env = ''2024-05-01''"
    by (simp add: store_complete_def)
  show ?thesis
    by (simp add: send_summary_main_def then_do_def r generate_summary_def send_email_def
        log_line_def c m d s Let_def fresh_world_def)
qed

end
